theory Spec2Isabelle
  imports Complex_Main
begin

section \<open>AstroCat: catalog matching and plate-solve orchestration\<close>

text \<open>
  A shallow embedding of \<^verbatim>\<open>backend/app/services/matching.py\<close> (the catalog matcher),
  \<^verbatim>\<open>backend/app/tasks/astrometry.py\<close> (submission, admission control, reaper) and the
  tables of \<^verbatim>\<open>backend/app/models\<close> they read and write.

  Python floats are modelled as \<open>real\<close>, nullable columns as \<open>option\<close>, tables as lists of
  records in storage order. The primary key and the \<^verbatim>\<open>matched_at\<close> default of a match row are
  assigned by the database and are not part of the row model. What the code takes from
  outside the repository (PostGIS distances, the astropy WCS object) is a parameter,
  collected in the record \<open>External\<close>.
\<close>

subsection \<open>Data model\<close>

datatype CatalogType = MESSIER | NGC | IC | NAMED_STAR

text \<open>The columns of \<^verbatim>\<open>Image\<close> that the matcher and the astrometry tasks use.\<close>

record Image =
  img_id :: int
  file_path :: string
  is_plate_solved :: bool
  plate_solve_provider :: "string option"
  ra_center_degrees :: "real option"
  dec_center_degrees :: "real option"
  field_radius_degrees :: "real option"
  pixel_scale_arcsec :: "real option"
  rotation_degrees :: "real option"
  width_pixels :: "int option"
  height_pixels :: "int option"
  raw_header :: "(string \<rightharpoonup> real option) option"
  astrometry_status :: string
  updated_at :: "int option"

text \<open>
  \<open>raw_header\<close> is a JSON object or NULL; an entry maps a key to a number, or to \<open>None\<close> for
  a JSON value that is not a number. \<open>updated_at\<close> counts seconds.

  A row of one of the three catalog tables: the designation, the coordinates and the
  nullable PostGIS point.
\<close>

record CatalogObject =
  designation :: string
  ra_degrees :: real
  dec_degrees :: real
  location :: "(real \<times> real) option"

record ImageCatalogMatch =
  image_id :: int
  catalog_type :: CatalogType
  catalog_designation :: string
  angular_separation_degrees :: "real option"
  is_in_field :: bool
  match_source :: "string option"
  confidence_score :: "real option"

record Database =
  images :: "Image list"
  image_catalog_matches :: "ImageCatalogMatch list"
  messier_catalog :: "CatalogObject list"
  ngc_catalog :: "CatalogObject list"
  named_star_catalog :: "CatalogObject list"

text \<open>A row returned by a field query: \<^verbatim>\<open>SELECT designation, ... AS dist\<close>.\<close>

record FieldRow =
  row_designation :: string
  dist :: real

text \<open>The WCS object the matcher fills in: reference pixel, reference sky point, CD matrix.\<close>

record WCS =
  crpix :: "real \<times> real"
  crval :: "real \<times> real"
  cd :: "(real \<times> real) \<times> (real \<times> real)"

text \<open>
  The parts that live outside the repository:
  \<^item> \<open>st_distance\<close>: PostGIS \<^verbatim>\<open>ST_Distance\<close> on geography points, in metres;
    \<^verbatim>\<open>ST_DWithin(a, b, d)\<close> is taken as \<open>st_distance a b \<le> d\<close>;
  \<^item> \<open>is_celestial\<close>: astropy accepts the assigned attributes and reports a celestial WCS;
  \<^item> \<open>world_to_pixel_values\<close>: astropy's projection; \<open>None\<close> stands for a raised exception
    or a result that is not a number (every comparison with it is false).
\<close>

record External =
  st_distance :: "real \<times> real \<Rightarrow> real \<times> real \<Rightarrow> real"
  is_celestial :: "WCS \<Rightarrow> bool"
  world_to_pixel_values :: "WCS \<Rightarrow> real \<Rightarrow> real \<Rightarrow> (real \<times> real) option"

datatype error = IntegrityError | DataError | MultipleResultsFound

subsection \<open>Field queries\<close>

text \<open>
  The three queries share one SQL shape; the NGC and named-star queries end in
  \<^verbatim>\<open>LIMIT 50\<close>, the Messier query has no limit. Rows come in storage order.
\<close>

definition find_in_field ::
  "External \<Rightarrow> CatalogObject list \<Rightarrow> nat option \<Rightarrow> real \<Rightarrow> real \<Rightarrow> real \<Rightarrow> FieldRow list" where
  "find_in_field ext tbl limit ra dec radius =
     (let radius_meters = radius * 111320;
          hits = concat (map (\<lambda>obj.
                   (case location obj of
                      None \<Rightarrow> []
                    | Some loc \<Rightarrow>
                        if st_distance ext loc (ra, dec) \<le> radius_meters
                        then [\<lparr>row_designation = designation obj,
                               dist = st_distance ext loc (ra, dec) / 111320.0\<rparr>]
                        else [])) tbl)
      in (case limit of None \<Rightarrow> hits | Some n \<Rightarrow> take n hits))"

definition find_messier_in_field :: "External \<Rightarrow> Database \<Rightarrow> real \<Rightarrow> real \<Rightarrow> real \<Rightarrow> FieldRow list" where
  "find_messier_in_field ext db ra dec radius =
     find_in_field ext (messier_catalog db) None ra dec radius"

definition find_ngc_in_field :: "External \<Rightarrow> Database \<Rightarrow> real \<Rightarrow> real \<Rightarrow> real \<Rightarrow> FieldRow list" where
  "find_ngc_in_field ext db ra dec radius =
     find_in_field ext (ngc_catalog db) (Some 50) ra dec radius"

definition find_named_stars_in_field :: "External \<Rightarrow> Database \<Rightarrow> real \<Rightarrow> real \<Rightarrow> real \<Rightarrow> FieldRow list" where
  "find_named_stars_in_field ext db ra dec radius =
     find_in_field ext (named_star_catalog db) (Some 50) ra dec radius"

subsection \<open>WCS construction and the bounds test\<close>

text \<open>
  \<^verbatim>\<open>_construct_wcs\<close>: all five scalars are required; the parity comes from the header
  entry \<^verbatim>\<open>astrometry_parity\<close> and defaults to 1; a parity that is not a number makes the
  multiplication raise, which the function turns into \<open>None\<close>.
\<close>

definition construct_wcs :: "External \<Rightarrow> Image \<Rightarrow> WCS option" where
  "construct_wcs ext img =
     (case (ra_center_degrees img, dec_center_degrees img, pixel_scale_arcsec img,
            width_pixels img, height_pixels img) of
        (Some ra, Some dec, Some pixscale, Some w, Some h) \<Rightarrow>
          (let scale = pixscale / 3600.0;
               rot_raw = (case rotation_degrees img of None \<Rightarrow> 0.0 | Some r \<Rightarrow> r);
               rad = rot_raw * pi / 180;
               cos_a = cos rad;
               sin_a = sin rad;
               parity = (case raw_header img of
                           None \<Rightarrow> Some 1
                         | Some hdr \<Rightarrow>
                             (case hdr ''astrometry_parity'' of None \<Rightarrow> Some 1 | Some v \<Rightarrow> v))
           in (case parity of
                 None \<Rightarrow> None
               | Some p \<Rightarrow>
                   (let s_x = - scale * p;
                        s_y = - scale;
                        wcs = \<lparr>crpix = (real_of_int w / 2.0, real_of_int h / 2.0),
                               crval = (ra, dec),
                               cd = ((s_x * cos_a, - s_y * sin_a), (s_x * sin_a, s_y * cos_a))\<rparr>
                    in if \<not> is_celestial ext wcs then None else Some wcs)))
      | _ \<Rightarrow> None)"

text \<open>
  \<^verbatim>\<open>_is_in_image_bounds\<close>: the margin is the constant 100; a failed projection, or a
  missing width or height (the addition raises), gives \<open>False\<close>.
\<close>

definition is_in_image_bounds ::
  "External \<Rightarrow> WCS \<Rightarrow> real \<Rightarrow> real \<Rightarrow> int option \<Rightarrow> int option \<Rightarrow> bool" where
  "is_in_image_bounds ext wcs ra dec width height =
     (case world_to_pixel_values ext wcs ra dec of
        None \<Rightarrow> False
      | Some (x, y) \<Rightarrow>
          (let margin = (100::real) in
           (case (width, height) of
              (Some w, Some h) \<Rightarrow>
                - margin \<le> x \<and> x \<le> real_of_int w + margin \<and>
                - margin \<le> y \<and> y \<le> real_of_int h + margin
            | _ \<Rightarrow> False)))"

subsection \<open>Coordinate lookup by designation\<close>

text \<open>\<^verbatim>\<open>Result.scalar_one_or_none\<close>: no row, the single row, or an exception for several rows.\<close>

fun scalar_one_or_none :: "'a list \<Rightarrow> error + 'a option" where
  "scalar_one_or_none [] = Inr None"
| "scalar_one_or_none [x] = Inr (Some x)"
| "scalar_one_or_none (x # y # zs) = Inl MultipleResultsFound"

text \<open>\<^verbatim>\<open>replace(s, ' ', '')\<close>, in SQL and in Python alike.\<close>

definition remove_spaces :: "string \<Rightarrow> string" where
  "remove_spaces s = filter (\<lambda>c. c \<noteq> CHR '' '') s"

text \<open>
  \<^verbatim>\<open>_get_catalog_coords\<close>: the whole body is inside \<^verbatim>\<open>try\<close>, so an exception of a
  query ends in the final \<^verbatim>\<open>return None\<close>.
\<close>

definition coords_of :: "CatalogObject \<Rightarrow> real \<times> real" where
  "coords_of obj = (ra_degrees obj, dec_degrees obj)"

definition get_catalog_coords :: "Database \<Rightarrow> CatalogType \<Rightarrow> string \<Rightarrow> (real \<times> real) option" where
  "get_catalog_coords db cat_type desig =
     (case cat_type of
        MESSIER \<Rightarrow>
          (case scalar_one_or_none (filter (\<lambda>obj. designation obj = desig) (messier_catalog db)) of
             Inl e \<Rightarrow> None
           | Inr None \<Rightarrow> None
           | Inr (Some obj) \<Rightarrow> Some (coords_of obj))
      | NAMED_STAR \<Rightarrow>
          (case scalar_one_or_none (filter (\<lambda>obj. designation obj = desig) (named_star_catalog db)) of
             Inl e \<Rightarrow> None
           | Inr (Some obj) \<Rightarrow> Some (coords_of obj)
           | Inr None \<Rightarrow>
               (case scalar_one_or_none
                       (filter (\<lambda>obj. remove_spaces (designation obj) = remove_spaces desig)
                          (named_star_catalog db)) of
                  Inl e \<Rightarrow> None
                | Inr None \<Rightarrow> None
                | Inr (Some obj) \<Rightarrow> Some (coords_of obj)))
      | _ \<Rightarrow>
          (case scalar_one_or_none (filter (\<lambda>obj. designation obj = desig) (ngc_catalog db)) of
             Inl e \<Rightarrow> None
           | Inr None \<Rightarrow> None
           | Inr (Some obj) \<Rightarrow> Some (coords_of obj)))"

subsection \<open>The matcher\<close>

text \<open>
  The body of the inner \<^verbatim>\<open>for row in rows\<close> loop, on the loop state
  (\<^verbatim>\<open>seen_keys\<close>, rows added to the session, \<^verbatim>\<open>count\<close>).
\<close>

type_synonym match_state = "(CatalogType \<times> string) set \<times> ImageCatalogMatch list \<times> nat"

definition new_match :: "int \<Rightarrow> CatalogType \<Rightarrow> FieldRow \<Rightarrow> ImageCatalogMatch" where
  "new_match iid cat_type row =
     \<lparr>image_id = iid,
      catalog_type = cat_type,
      catalog_designation = row_designation row,
      angular_separation_degrees = Some (dist row),
      is_in_field = True,
      match_source = Some ''AUTOMATIC'',
      confidence_score = Some (1.0 - (dist row / 5.0))\<rparr>"

text \<open>The test \<^verbatim>\<open>if wcs is not None: ... continue\<close>: does the row pass validation?\<close>

definition passes_validation ::
  "External \<Rightarrow> Database \<Rightarrow> WCS option \<Rightarrow> Image \<Rightarrow> CatalogType \<Rightarrow> string \<Rightarrow> bool" where
  "passes_validation ext db wcs img cat_type desig =
     (case wcs of
        None \<Rightarrow> True
      | Some w \<Rightarrow>
          (case get_catalog_coords db cat_type desig of
             None \<Rightarrow> False
           | Some (ra, dec) \<Rightarrow>
               is_in_image_bounds ext w ra dec (width_pixels img) (height_pixels img)))"

fun match_rows ::
  "External \<Rightarrow> Database \<Rightarrow> WCS option \<Rightarrow> Image \<Rightarrow> int \<Rightarrow> CatalogType \<Rightarrow> FieldRow list
     \<Rightarrow> match_state \<Rightarrow> match_state" where
  "match_rows ext db wcs img iid cat_type [] st = st"
| "match_rows ext db wcs img iid cat_type (row # rows) (seen_keys, added, count) =
     (let desig = row_designation row;
          key = (cat_type, desig)
      in if key \<in> seen_keys then match_rows ext db wcs img iid cat_type rows (seen_keys, added, count)
         else if \<not> passes_validation ext db wcs img cat_type desig
         then match_rows ext db wcs img iid cat_type rows (seen_keys, added, count)
         else match_rows ext db wcs img iid cat_type rows
                (insert key seen_keys, added @ [new_match iid cat_type row], count + 1))"

text \<open>The outer \<^verbatim>\<open>for cat_type, rows in all_matches\<close> loop.\<close>

fun match_all ::
  "External \<Rightarrow> Database \<Rightarrow> WCS option \<Rightarrow> Image \<Rightarrow> int \<Rightarrow> (CatalogType \<times> FieldRow list) list
     \<Rightarrow> match_state \<Rightarrow> match_state" where
  "match_all ext db wcs img iid [] st = st"
| "match_all ext db wcs img iid ((cat_type, rows) # rest) st =
     match_all ext db wcs img iid rest (match_rows ext db wcs img iid cat_type rows st)"

text \<open>\<^verbatim>\<open>session.get(Image, image_id)\<close>.\<close>

definition session_get :: "Database \<Rightarrow> int \<Rightarrow> Image option" where
  "session_get db iid = find (\<lambda>img. img_id img = iid) (images db)"

text \<open>
  The \<^verbatim>\<open>DELETE\<close> statement keeps every row that is not an AUTOMATIC row of the image; a
  NULL \<^verbatim>\<open>match_source\<close> does not satisfy the equality and is kept.
\<close>

definition is_automatic_of :: "int \<Rightarrow> ImageCatalogMatch \<Rightarrow> bool" where
  "is_automatic_of iid m = (image_id m = iid \<and> match_source m = Some ''AUTOMATIC'')"

definition delete_automatic :: "int \<Rightarrow> ImageCatalogMatch list \<Rightarrow> ImageCatalogMatch list" where
  "delete_automatic iid ms = filter (\<lambda>m. \<not> is_automatic_of iid m) ms"

text \<open>
  The commit flushes the added rows. The table declares
  \<^verbatim>\<open>UniqueConstraint('image_id', 'catalog_type', 'catalog_designation')\<close> and
  \<^verbatim>\<open>catalog_designation = Column(String(20))\<close>: a row that breaks either makes the commit
  raise, and the transaction, the deletion included, is rolled back.
\<close>

definition match_key :: "ImageCatalogMatch \<Rightarrow> int \<times> CatalogType \<times> string" where
  "match_key m = (image_id m, catalog_type m, catalog_designation m)"

definition commit_matches ::
  "Database \<Rightarrow> ImageCatalogMatch list \<Rightarrow> ImageCatalogMatch list \<Rightarrow> nat
     \<Rightarrow> (error + nat) \<times> Database" where
  "commit_matches db kept added count =
     (if list_ex (\<lambda>m. length (catalog_designation m) > 20) added then (Inl DataError, db)
      else if list_ex (\<lambda>m. match_key m \<in> set (map match_key kept)) added
              \<or> \<not> distinct (map match_key added)
      then (Inl IntegrityError, db)
      else (Inr count, db\<lparr>image_catalog_matches := kept @ added\<rparr>))"

text \<open>
  \<^verbatim>\<open>CatalogMatcher.match_image\<close>; \<^verbatim>\<open>SyncCatalogMatcher.match_image\<close> is the same code on
  a synchronous session. The result is the returned count or the exception of the commit,
  with the database as it is afterwards.
\<close>

definition search_radius :: "Image \<Rightarrow> real" where
  "search_radius img =
     (case field_radius_degrees img of None \<Rightarrow> 1.0 | Some r \<Rightarrow> if r = 0 then 1.0 else r)"

definition field_matches ::
  "External \<Rightarrow> Database \<Rightarrow> real \<Rightarrow> real \<Rightarrow> real \<Rightarrow> (CatalogType \<times> FieldRow list) list" where
  "field_matches ext db ra dec radius =
     [(MESSIER, find_messier_in_field ext db ra dec radius),
      (NGC, find_ngc_in_field ext db ra dec radius),
      (NAMED_STAR, find_named_stars_in_field ext db ra dec radius)]"

definition match_image :: "External \<Rightarrow> Database \<Rightarrow> int \<Rightarrow> (error + nat) \<times> Database" where
  "match_image ext db iid =
     (case session_get db iid of
        None \<Rightarrow> (Inr 0, db)
      | Some img \<Rightarrow>
          if \<not> is_plate_solved img then (Inr 0, db)
          else
            (case (ra_center_degrees img, dec_center_degrees img) of
               (Some ra, Some dec) \<Rightarrow>
                 if ra = 0 \<or> dec = 0 then (Inr 0, db)
                 else
                   (let radius = search_radius img;
                        kept = delete_automatic iid (image_catalog_matches db);
                        all_matches = field_matches ext db ra dec radius;
                        wcs = construct_wcs ext img
                    in (case match_all ext db wcs img iid all_matches ({}, [], 0) of
                          (seen_keys, added, count) \<Rightarrow> commit_matches db kept added count))
             | _ \<Rightarrow> (Inr 0, db)))"

text \<open>
  The guards of \<^verbatim>\<open>match_image\<close> as one predicate: the image is plate-solved and both
  centre coordinates are present and truthy (a float 0.0 is falsy in Python).
\<close>

definition matchable :: "Image \<Rightarrow> bool" where
  "matchable img =
     (is_plate_solved img \<and>
      (case ra_center_degrees img of None \<Rightarrow> False | Some ra \<Rightarrow> ra \<noteq> 0) \<and>
      (case dec_center_degrees img of None \<Rightarrow> False | Some dec \<Rightarrow> dec \<noteq> 0))"

text \<open>The candidates of an image in loop order, each with its catalog type.\<close>

definition candidates :: "External \<Rightarrow> Database \<Rightarrow> Image \<Rightarrow> (CatalogType \<times> FieldRow) list" where
  "candidates ext db img =
     (case (ra_center_degrees img, dec_center_degrees img) of
        (Some ra, Some dec) \<Rightarrow>
          concat (map (\<lambda>(cat_type, rows). map (Pair cat_type) rows)
                    (field_matches ext db ra dec (search_radius img)))
      | _ \<Rightarrow> [])"

text \<open>The table a catalog type is looked up in by \<^verbatim>\<open>_get_catalog_coords\<close>.\<close>

definition catalog_table :: "Database \<Rightarrow> CatalogType \<Rightarrow> CatalogObject list" where
  "catalog_table db cat_type =
     (case cat_type of
        MESSIER \<Rightarrow> messier_catalog db
      | NAMED_STAR \<Rightarrow> named_star_catalog db
      | _ \<Rightarrow> ngc_catalog db)"

definition candidate_key :: "CatalogType \<times> FieldRow \<Rightarrow> CatalogType \<times> string" where
  "candidate_key c = (fst c, row_designation (snd c))"

definition catalog_key :: "ImageCatalogMatch \<Rightarrow> CatalogType \<times> string" where
  "catalog_key m = (catalog_type m, catalog_designation m)"

definition automatic_rows :: "int \<Rightarrow> Database \<Rightarrow> ImageCatalogMatch list" where
  "automatic_rows iid db = filter (is_automatic_of iid) (image_catalog_matches db)"

text \<open>
  The rows a pass of the two loops keeps, written without the accumulators: a candidate
  is kept when its key is new and \<open>ok\<close> holds of the key. Used to reason about the loops.
\<close>

fun selected ::
  "(CatalogType \<times> string \<Rightarrow> bool) \<Rightarrow> (CatalogType \<times> string) set
     \<Rightarrow> (CatalogType \<times> FieldRow) list \<Rightarrow> (CatalogType \<times> FieldRow) list" where
  "selected ok seen [] = []"
| "selected ok seen (c # cs) =
     (if candidate_key c \<in> seen \<or> \<not> ok (candidate_key c) then selected ok seen cs
      else c # selected ok (insert (candidate_key c) seen) cs)"

definition validated ::
  "External \<Rightarrow> Database \<Rightarrow> WCS option \<Rightarrow> Image \<Rightarrow> CatalogType \<times> string \<Rightarrow> bool" where
  "validated ext db wcs img k = passes_validation ext db wcs img (fst k) (snd k)"

text \<open>The rows one run adds to the session for an image that passes the guards.\<close>

definition written :: "External \<Rightarrow> Database \<Rightarrow> Image \<Rightarrow> int \<Rightarrow> ImageCatalogMatch list" where
  "written ext db img iid =
     map (\<lambda>c. new_match iid (fst c) (snd c))
       (selected (validated ext db (construct_wcs ext img) img) {} (candidates ext db img))"

subsection \<open>Designation normalisation as the specification words it\<close>

text \<open>
  ASCII upper-casing, as \<^verbatim>\<open>str.upper\<close> acts on the designations and provider names in
  use; other bytes are left as they are.
\<close>

definition upper_char :: "char \<Rightarrow> char" where
  "upper_char c =
     (case map_of (zip ''abcdefghijklmnopqrstuvwxyz'' ''ABCDEFGHIJKLMNOPQRSTUVWXYZ'') c of
        None \<Rightarrow> c
      | Some u \<Rightarrow> u)"

definition upper :: "string \<Rightarrow> string" where
  "upper s = map upper_char s"


subsection \<open>Submission: provider, admission control, hints\<close>

text \<open>
  What \<^verbatim>\<open>_rescan_logic\<close> reads from its surroundings: the three settings, the JSON
  document \<^verbatim>\<open>system_settings\<close> in Redis (\<open>None\<close> when the read fails or the key is empty),
  whether \<^verbatim>\<open>lock.acquire\<close> got the lock within its timeout, and the clock at the commit
  (\<^verbatim>\<open>updated_at\<close> has \<^verbatim>\<open>onupdate=datetime.utcnow\<close>), in microseconds.
\<close>

record SystemSettings =
  astrometry_provider :: "string option"
  astrometry_max_submissions :: "int option"

record TaskEnv =
  astrometry_api_key :: string
  local_astrometry_api_key :: string
  local_astrometry_url :: string
  system_settings :: "SystemSettings option"
  lock_acquired :: bool
  utcnow :: int

datatype hint_value = Number real | Text string

type_synonym hints = "(string \<times> hint_value) list"

text \<open>
  Where the modelled part of \<^verbatim>\<open>_rescan_logic\<close> ends: a returned error, the no-op for an
  image already in flight, \<^verbatim>\<open>task.retry(countdown=n)\<close>, or the call
  \<^verbatim>\<open>AstrometryService.upload_file(file_path, api_key, base_url, hints=hints)\<close>.
\<close>

datatype rescan_step =
    Return_error string
  | Return_already_started
  | Retry nat
  | Upload_file string string string hints

definition NOVA_API_URL :: string where
  "NOVA_API_URL = ''http://nova.astrometry.net/api''"

text \<open>
  Provider, API key and base URL (lines 39 to 57). When the local configuration is
  incomplete the provider and the key fall back to Nova; the base URL is not reset.
\<close>

definition provider_config :: "TaskEnv \<Rightarrow> string \<times> string \<times> string" where
  "provider_config env =
     (let provider = (case system_settings env of
                        None \<Rightarrow> ''nova''
                      | Some ss \<Rightarrow> (case astrometry_provider ss of None \<Rightarrow> ''nova'' | Some p \<Rightarrow> p))
      in if provider = ''local''
         then (let api_key = local_astrometry_api_key env;
                   base_url = local_astrometry_url env
               in if api_key = [] \<or> base_url = []
                  then (''nova'', astrometry_api_key env, base_url)
                  else (provider, api_key, base_url))
         else (provider, astrometry_api_key env, NOVA_API_URL))"

text \<open>The API key the task goes on with.\<close>

definition effective_api_key :: "TaskEnv \<Rightarrow> string" where
  "effective_api_key env = fst (snd (provider_config env))"

definition max_submissions :: "TaskEnv \<Rightarrow> int" where
  "max_submissions env =
     (case system_settings env of
        None \<Rightarrow> 8
      | Some ss \<Rightarrow> (case astrometry_max_submissions ss of None \<Rightarrow> 8 | Some n \<Rightarrow> n))"

definition active_count :: "Database \<Rightarrow> nat" where
  "active_count db =
     length (filter (\<lambda>img. astrometry_status img \<in> {''SUBMITTED'', ''PROCESSING''}) (images db))"

text \<open>The hints dictionary in insertion order (lines 122 to 139).\<close>

definition prepare_hints :: "string \<Rightarrow> Image \<Rightarrow> hints" where
  "prepare_hints previous_status img =
     (if previous_status = ''FAILED'' then []
      else
        (case (ra_center_degrees img, dec_center_degrees img) of
           (Some ra, Some dec) \<Rightarrow>
             [(''center_ra'', Number ra), (''center_dec'', Number dec),
              (''radius'', Number (case field_radius_degrees img of
                                     None \<Rightarrow> 5.0
                                   | Some r \<Rightarrow> if r = 0 then 5.0 else r))]
         | _ \<Rightarrow> [])
        @ (case pixel_scale_arcsec img of
             None \<Rightarrow> []
           | Some s \<Rightarrow>
               [(''scale_units'', Text ''arcsecperpix''),
                (''scale_lower'', Number (s * 0.9)),
                (''scale_upper'', Number (s * 1.1))]))"

definition update_image :: "int \<Rightarrow> (Image \<Rightarrow> Image) \<Rightarrow> Database \<Rightarrow> Database" where
  "update_image iid f db =
     db\<lparr>images := map (\<lambda>img. if img_id img = iid then f img else img) (images db)\<rparr>"

text \<open>
  \<^verbatim>\<open>_rescan_logic\<close> from its start to the upload call. The image is read by primary key.
\<close>

definition rescan_logic :: "TaskEnv \<Rightarrow> Database \<Rightarrow> int \<Rightarrow> rescan_step \<times> Database" where
  "rescan_logic env db iid =
     (case provider_config env of
        (provider, api_key, base_url) \<Rightarrow>
          if api_key = [] then (Return_error ''API key missing'', db)
          else if lock_acquired env then
            (if int (active_count db) \<ge> max_submissions env then (Retry 20, db)
             else
               (case session_get db iid of
                  None \<Rightarrow> (Return_error ''Image not found'', db)
                | Some img \<Rightarrow>
                    if astrometry_status img \<in> {''SUBMITTED'', ''PROCESSING'', ''SOLVED''}
                    then (Return_already_started, db)
                    else
                      (let previous_status = astrometry_status img;
                           db' = update_image iid
                                   (\<lambda>i. i\<lparr>astrometry_status := ''SUBMITTED'',
                                          plate_solve_provider := Some (upper provider),
                                          updated_at := Some (utcnow env)\<rparr>) db
                       in (Upload_file (file_path img) api_key base_url
                             (prepare_hints previous_status img), db'))))
          else (Retry 5, db))"

text \<open>
  The endpoint \<^verbatim>\<open>rescan_image\<close> of \<^verbatim>\<open>api/images.py\<close> submits without the admission
  check; it prepares the hints with the same lines. \<open>Return_error\<close> stands for its
  \<^verbatim>\<open>HTTPException\<close>. The row is written, and \<^verbatim>\<open>updated_at\<close> refreshed, only when a column
  changes.
\<close>

definition rescan_image :: "TaskEnv \<Rightarrow> Database \<Rightarrow> int \<Rightarrow> rescan_step \<times> Database" where
  "rescan_image env db iid =
     (case session_get db iid of
        None \<Rightarrow> (Return_error ''Image not found'', db)
      | Some img \<Rightarrow>
          (case provider_config env of
             (provider, api_key, base_url) \<Rightarrow>
               if api_key = [] then (Return_error ''Astrometry API key not configured'', db)
               else
                 (let previous_status = astrometry_status img;
                      db' = (if astrometry_status img = ''SUBMITTED'' \<and>
                                plate_solve_provider img = Some (upper provider)
                             then db
                             else update_image iid
                                    (\<lambda>i. i\<lparr>astrometry_status := ''SUBMITTED'',
                                           plate_solve_provider := Some (upper provider),
                                           updated_at := Some (utcnow env)\<rparr>) db)
                  in (Upload_file (file_path img) api_key base_url
                        (prepare_hints previous_status img), db'))))"

subsection \<open>The request of an upload\<close>

fun starts_with :: "string \<Rightarrow> string \<Rightarrow> bool" where
  "starts_with [] s = True"
| "starts_with (p # ps) [] = False"
| "starts_with (p # ps) (c # cs) = (p = c \<and> starts_with ps cs)"

text \<open>Python's \<^verbatim>\<open>sub in s\<close> on strings.\<close>

fun contains :: "string \<Rightarrow> string \<Rightarrow> bool" where
  "contains sub [] = (sub = [])"
| "contains sub (c # cs) = (starts_with sub (c # cs) \<or> contains sub cs)"

text \<open>\<^verbatim>\<open>dict.update\<close> on a dictionary kept in insertion order.\<close>

fun dict_set :: "string \<Rightarrow> hint_value \<Rightarrow> hints \<Rightarrow> hints" where
  "dict_set k v [] = [(k, v)]"
| "dict_set k v ((k', v') # d) = (if k = k' then (k, v) # d else (k', v') # dict_set k v d)"

fun dict_update :: "hints \<Rightarrow> hints \<Rightarrow> hints" where
  "dict_update d [] = d"
| "dict_update d ((k, v) # other) = dict_update (dict_set k v d) other"

text \<open>
  \<^verbatim>\<open>req_data\<close> of \<^verbatim>\<open>AstrometryService.upload_file\<close> (lines 77 to 95): for the remote
  server nothing is added; otherwise the default scale and then the hints.
\<close>

definition req_data :: "string \<Rightarrow> string \<Rightarrow> hints \<Rightarrow> hints" where
  "req_data session_key base_url hs =
     (let base = [(''publicly_visible'', Text ''n''),
                  (''allow_commercial_use'', Text ''d''),
                  (''allow_modifications'', Text ''d''),
                  (''session'', Text session_key)]
      in if \<not> contains ''nova.astrometry.net'' base_url
         then (let with_scale = dict_update base
                                  [(''scale_units'', Text ''degwidth''),
                                   (''scale_lower'', Number 0.1),
                                   (''scale_upper'', Number 180.0)]
               in if hs \<noteq> [] then dict_update with_scale hs else with_scale)
         else base)"

subsection \<open>The reaper\<close>

text \<open>
  \<^verbatim>\<open>cleanup_stuck_astrometry\<close>: \<open>now\<close> is the clock read for the threshold, \<open>flushed\<close> the
  clock at the commit, which \<^verbatim>\<open>onupdate\<close> writes into \<^verbatim>\<open>updated_at\<close> of each changed row.
  Times are in microseconds; a NULL \<^verbatim>\<open>updated_at\<close> does not satisfy the comparison.
\<close>

definition is_stuck :: "int \<Rightarrow> Image \<Rightarrow> bool" where
  "is_stuck five_mins_ago img =
     (astrometry_status img \<in> {''SUBMITTED'', ''PROCESSING''} \<and>
      (case updated_at img of None \<Rightarrow> False | Some t \<Rightarrow> t < five_mins_ago))"

definition cleanup_stuck_astrometry :: "int \<Rightarrow> int \<Rightarrow> Database \<Rightarrow> nat \<times> Database" where
  "cleanup_stuck_astrometry now flushed db =
     (let five_mins_ago = now - 5 * 60 * 1000000;
          stuck_images = filter (is_stuck five_mins_ago) (images db)
      in if stuck_images = [] then (0, db)
         else (length stuck_images,
               db\<lparr>images := map (\<lambda>img. if is_stuck five_mins_ago img
                                        then img\<lparr>astrometry_status := ''FAILED'',
                                                 updated_at := Some flushed\<rparr>
                                        else img) (images db)\<rparr>))"

subsection \<open>Fixtures\<close>

text \<open>
  Concrete inputs for the instances below: a stand-in for PostGIS and astropy (a taxicab
  distance in degrees scaled to metres, and an unrotated linear projection at 1800 pixels
  per degree), the image of the specification's scenario (centre (10, 41), radius 1 degree,
  2 arcsec per pixel, 1000 by 1000 pixels) and small catalog tables.
\<close>

definition example_external :: External where
  "example_external =
     \<lparr>st_distance = (\<lambda>a b. (\<bar>fst a - fst b\<bar> + \<bar>snd a - snd b\<bar>) * 111320),
      is_celestial = (\<lambda>w. True),
      world_to_pixel_values = (\<lambda>w ra dec.
         Some (fst (crpix w) - (ra - fst (crval w)) * 1800,
               snd (crpix w) - (dec - snd (crval w)) * 1800))\<rparr>"

definition example_image :: Image where
  "example_image =
     \<lparr>img_id = 1, file_path = ''/data/m31.fits'', is_plate_solved = True,
      plate_solve_provider = Some ''LOCAL'',
      ra_center_degrees = Some 10, dec_center_degrees = Some 41,
      field_radius_degrees = Some 1, pixel_scale_arcsec = Some 2,
      rotation_degrees = Some 0, width_pixels = Some 1000, height_pixels = Some 1000,
      raw_header = None, astrometry_status = ''SOLVED'', updated_at = Some 1000\<rparr>"

definition manual_row :: ImageCatalogMatch where
  "manual_row =
     \<lparr>image_id = 1, catalog_type = NGC, catalog_designation = ''NGC205'',
      angular_separation_degrees = None, is_in_field = True,
      match_source = Some ''MANUAL'', confidence_score = None\<rparr>"

definition stale_row :: ImageCatalogMatch where
  "stale_row =
     \<lparr>image_id = 1, catalog_type = MESSIER, catalog_designation = ''M110'',
      angular_separation_degrees = Some 0.5, is_in_field = True,
      match_source = Some ''AUTOMATIC'', confidence_score = Some 0.9\<rparr>"

definition other_row :: ImageCatalogMatch where
  "other_row =
     \<lparr>image_id = 2, catalog_type = MESSIER, catalog_designation = ''M42'',
      angular_separation_degrees = Some 0.25, is_in_field = True,
      match_source = Some ''AUTOMATIC'', confidence_score = Some 0.95\<rparr>"

definition example_db :: Database where
  "example_db =
     \<lparr>images = [example_image],
      image_catalog_matches = [manual_row, stale_row, other_row],
      messier_catalog =
        [\<lparr>designation = ''M31'', ra_degrees = 10, dec_degrees = 41, location = Some (10, 41)\<rparr>,
         \<lparr>designation = ''M32'', ra_degrees = 10, dec_degrees = 41.75, location = Some (10, 41.75)\<rparr>,
         \<lparr>designation = ''M33'', ra_degrees = 10, dec_degrees = 43.5, location = Some (10, 43.5)\<rparr>],
      ngc_catalog =
        [\<lparr>designation = ''NGC224'', ra_degrees = 10, dec_degrees = 41, location = Some (10, 41)\<rparr>],
      named_star_catalog =
        [\<lparr>designation = ''HD 3969'', ra_degrees = 10.25, dec_degrees = 41, location = Some (10.25, 41)\<rparr>]\<rparr>"

definition auto_row :: "CatalogType \<Rightarrow> string \<Rightarrow> real \<Rightarrow> real \<Rightarrow> ImageCatalogMatch" where
  "auto_row cat_type desig sep conf =
     \<lparr>image_id = 1, catalog_type = cat_type, catalog_designation = desig,
      angular_separation_degrees = Some sep, is_in_field = True,
      match_source = Some ''AUTOMATIC'', confidence_score = Some conf\<rparr>"

definition example_wcs :: WCS where
  "example_wcs =
     \<lparr>crpix = (500, 500), crval = (10, 41), cd = ((- (1 / 1800), 0), (0, - (1 / 1800)))\<rparr>"

definition example_db_matched :: Database where
  "example_db_matched =
     example_db\<lparr>image_catalog_matches :=
       [manual_row, other_row, auto_row MESSIER ''M31'' 0 1, auto_row NGC ''NGC224'' 0 1,
        auto_row NAMED_STAR ''HD 3969'' 0.25 0.95]\<rparr>"

text \<open>The same image without a pixel scale: no WCS can be built.\<close>

definition degraded_image :: Image where
  "degraded_image = example_image\<lparr>pixel_scale_arcsec := None\<rparr>"

definition degraded_db :: Database where
  "degraded_db = example_db\<lparr>images := [degraded_image]\<rparr>"

definition degraded_db_matched :: Database where
  "degraded_db_matched =
     degraded_db\<lparr>image_catalog_matches :=
       [manual_row, other_row, auto_row MESSIER ''M31'' 0 1, auto_row MESSIER ''M32'' 0.75 0.85,
        auto_row NGC ''NGC224'' 0 1, auto_row NAMED_STAR ''HD 3969'' 0.25 0.95]\<rparr>"


definition unsolved_image :: Image where
  "unsolved_image = example_image\<lparr>is_plate_solved := False\<rparr>"

definition unsolved_db :: Database where
  "unsolved_db = example_db\<lparr>images := [unsolved_image]\<rparr>"

definition no_center_image :: Image where
  "no_center_image = example_image\<lparr>dec_center_degrees := None\<rparr>"

definition no_center_db :: Database where
  "no_center_db = example_db\<lparr>images := [no_center_image]\<rparr>"

definition origin_image :: Image where
  "origin_image = example_image\<lparr>ra_center_degrees := Some 0\<rparr>"

definition origin_db :: Database where
  "origin_db =
     example_db\<lparr>images := [origin_image],
       messier_catalog :=
         [\<lparr>designation = ''M31'', ra_degrees = 0, dec_degrees = 41, location = Some (0, 41)\<rparr>]\<rparr>"

definition equator_image :: Image where
  "equator_image = example_image\<lparr>dec_center_degrees := Some 0\<rparr>"

definition equator_db :: Database where
  "equator_db = example_db\<lparr>images := [equator_image]\<rparr>"

definition wide_image :: Image where
  "wide_image = example_image\<lparr>field_radius_degrees := Some 10, pixel_scale_arcsec := None\<rparr>"

definition wide_db :: Database where
  "wide_db =
     \<lparr>images = [wide_image],
      image_catalog_matches = [],
      messier_catalog =
        [\<lparr>designation = ''M15'', ra_degrees = 10, dec_degrees = 51, location = Some (10, 51)\<rparr>],
      ngc_catalog = [],
      named_star_catalog = []\<rparr>"

definition wide_db_matched :: Database where
  "wide_db_matched = wide_db\<lparr>image_catalog_matches := [auto_row MESSIER ''M15'' 10 (- 1)]\<rparr>"

text \<open>
  Result lists for the two loops in which the first list repeats a designation. With
  unique designations in a table a field query returns no such list; the loops accept it.
\<close>

definition repeated_matches :: "(CatalogType \<times> FieldRow list) list" where
  "repeated_matches =
     [(MESSIER, [\<lparr>row_designation = ''M31'', dist = 0\<rparr>,
                 \<lparr>row_designation = ''M31'', dist = 0.5\<rparr>]),
      (NGC, [\<lparr>row_designation = ''NGC224'', dist = 0\<rparr>]),
      (NAMED_STAR, [])]"


text \<open>Fixtures for the astrometry tasks.\<close>

definition default_env :: TaskEnv where
  "default_env =
     \<lparr>astrometry_api_key = ''novakey'', local_astrometry_api_key = '''',
      local_astrometry_url = '''', system_settings = None, lock_acquired = True,
      utcnow = 1000000000\<rparr>"

definition local_env :: TaskEnv where
  "local_env =
     \<lparr>astrometry_api_key = ''novakey'', local_astrometry_api_key = ''localkey'',
      local_astrometry_url = ''http://solver.local/api'',
      system_settings = Some \<lparr>astrometry_provider = Some ''local'',
                               astrometry_max_submissions = Some 2\<rparr>,
      lock_acquired = True, utcnow = 1000000000\<rparr>"

definition failed_image :: Image where
  "failed_image = example_image\<lparr>is_plate_solved := False, astrometry_status := ''FAILED''\<rparr>"

definition failed_db :: Database where
  "failed_db = example_db\<lparr>images := [failed_image]\<rparr>"

definition fresh_image :: Image where
  "fresh_image = example_image\<lparr>is_plate_solved := False, astrometry_status := ''NONE''\<rparr>"

definition fresh_db :: Database where
  "fresh_db = example_db\<lparr>images := [fresh_image]\<rparr>"

definition in_flight :: "int \<Rightarrow> string \<Rightarrow> Image" where
  "in_flight i status =
     example_image\<lparr>img_id := i, is_plate_solved := False, astrometry_status := status\<rparr>"

definition busy_db :: Database where
  "busy_db =
     example_db\<lparr>images :=
       [fresh_image,
        in_flight 2 ''SUBMITTED'', in_flight 3 ''PROCESSING'', in_flight 4 ''PROCESSING'',
        in_flight 5 ''SUBMITTED'', in_flight 6 ''PROCESSING'', in_flight 7 ''PROCESSING'',
        in_flight 8 ''SUBMITTED'', in_flight 9 ''PROCESSING'']\<rparr>"

definition aged :: "int \<Rightarrow> string \<Rightarrow> int \<Rightarrow> Image" where
  "aged i status t =
     example_image\<lparr>img_id := i, is_plate_solved := False, astrometry_status := status,
                    updated_at := Some t\<rparr>"

text \<open>
  At clock 1000000000 (microseconds): image 1 was last updated ten minutes ago, image 2
  one minute ago, image 3 is solved and old, image 4 has no timestamp.
\<close>

definition reaper_db :: Database where
  "reaper_db =
     example_db\<lparr>images :=
       [aged 1 ''PROCESSING'' 400000000, aged 2 ''PROCESSING'' 940000000,
        aged 3 ''SOLVED'' 400000000,
        (aged 4 ''SUBMITTED'' 0)\<lparr>updated_at := None\<rparr>]\<rparr>"

section \<open>Properties of the matcher\<close>

subsection \<open>The loops\<close>

lemma selected_subset: "set (selected ok seen cs) \<subseteq> set cs"
  by (induction cs arbitrary: seen) auto

lemma selected_ok: "c \<in> set (selected ok seen cs) \<Longrightarrow> ok (candidate_key c) \<and> candidate_key c \<notin> seen"
  by (induction cs arbitrary: seen) (auto split: if_splits)

lemma selected_distinct: "distinct (map candidate_key (selected ok seen cs))"
proof (induction cs arbitrary: seen)
  case Nil
  show ?case by simp
next
  case (Cons c cs)
  have "candidate_key c \<notin> candidate_key ` set (selected ok (insert (candidate_key c) seen) cs)"
  proof
    assume "candidate_key c \<in> candidate_key ` set (selected ok (insert (candidate_key c) seen) cs)"
    then obtain d where d: "d \<in> set (selected ok (insert (candidate_key c) seen) cs)"
      and eq: "candidate_key c = candidate_key d" by blast
    from selected_ok [OF d] eq show False by simp
  qed
  with Cons show ?case by simp
qed

lemma selected_keys:
  "candidate_key ` set (selected ok seen cs) = {k \<in> candidate_key ` set cs. ok k \<and> k \<notin> seen}"
proof (induction cs arbitrary: seen)
  case Nil
  show ?case by simp
next
  case (Cons c cs)
  show ?case
  proof (cases "candidate_key c \<in> seen \<or> \<not> ok (candidate_key c)")
    case True
    then show ?thesis using Cons [of seen] by auto
  next
    case False
    then show ?thesis using Cons [of "insert (candidate_key c) seen"] by auto
  qed
qed

lemma selected_first:
  "c \<in> set (selected ok seen cs) \<Longrightarrow> find (\<lambda>d. candidate_key d = candidate_key c) cs = Some c"
proof (induction cs arbitrary: seen)
  case Nil
  then show ?case by simp
next
  case (Cons d cs)
  show ?case
  proof (cases "candidate_key d \<in> seen \<or> \<not> ok (candidate_key d)")
    case True
    with Cons.prems have in_rest: "c \<in> set (selected ok seen cs)" by simp
    from selected_ok [OF in_rest] True have "candidate_key d \<noteq> candidate_key c" by auto
    with Cons.IH [OF in_rest] show ?thesis by simp
  next
    case False
    with Cons.prems have "c = d \<or> c \<in> set (selected ok (insert (candidate_key d) seen) cs)"
      by auto
    then show ?thesis
    proof
      assume "c = d"
      then show ?thesis by simp
    next
      assume in_rest: "c \<in> set (selected ok (insert (candidate_key d) seen) cs)"
      from selected_ok [OF in_rest] have "candidate_key d \<noteq> candidate_key c" by auto
      with Cons.IH [OF in_rest] show ?thesis by simp
    qed
  qed
qed

lemma selected_append:
  "selected ok seen (xs @ ys) =
     selected ok seen xs @ selected ok (seen \<union> candidate_key ` set (selected ok seen xs)) ys"
  by (induction xs arbitrary: seen) auto

lemma match_rows_selected:
  "match_rows ext db wcs img iid cat_type rows (seen, added, count) =
     (let sel = selected (validated ext db wcs img) seen (map (Pair cat_type) rows)
      in (seen \<union> candidate_key ` set sel,
          added @ map (\<lambda>c. new_match iid (fst c) (snd c)) sel,
          count + length sel))"
proof (induction rows arbitrary: seen added count)
  case Nil
  show ?case by simp
next
  case (Cons row rows)
  show ?case
    by (simp add: Cons Let_def candidate_key_def validated_def)
qed

lemma match_all_selected:
  "match_all ext db wcs img iid all_matches (seen, added, count) =
     (let sel = selected (validated ext db wcs img) seen
                  (concat (map (\<lambda>(cat_type, rows). map (Pair cat_type) rows) all_matches))
      in (seen \<union> candidate_key ` set sel,
          added @ map (\<lambda>c. new_match iid (fst c) (snd c)) sel,
          count + length sel))"
proof (induction all_matches arbitrary: seen added count)
  case Nil
  show ?case by simp
next
  case (Cons p rest)
  obtain cat_type rows where p: "p = (cat_type, rows)" by (cases p)
  show ?case
    by (simp add: p match_rows_selected Cons Let_def selected_append Un_assoc image_Un)
qed

subsection \<open>The shape of a run\<close>

lemma candidates_flat:
  "ra_center_degrees img = Some ra \<Longrightarrow> dec_center_degrees img = Some dec \<Longrightarrow>
   candidates ext db img =
     concat (map (\<lambda>(cat_type, rows). map (Pair cat_type) rows)
               (field_matches ext db ra dec (search_radius img)))"
  by (simp add: candidates_def)

lemma match_image_missing:
  "session_get db iid = None \<Longrightarrow> match_image ext db iid = (Inr 0, db)"
  by (simp add: match_image_def)

lemma match_image_not_matchable:
  "session_get db iid = Some img \<Longrightarrow> \<not> matchable img \<Longrightarrow> match_image ext db iid = (Inr 0, db)"
  by (auto simp: match_image_def matchable_def split: option.splits)

lemma match_image_matchable:
  assumes "session_get db iid = Some img" and "matchable img"
  shows "match_image ext db iid =
           commit_matches db (delete_automatic iid (image_catalog_matches db))
             (written ext db img iid) (length (written ext db img iid))"
proof -
  from assms(2) obtain ra dec where c: "ra_center_degrees img = Some ra"
    "dec_center_degrees img = Some dec" "ra \<noteq> 0" "dec \<noteq> 0" "is_plate_solved img"
    by (auto simp: matchable_def split: option.splits)
  show ?thesis
    by (simp add: match_image_def assms(1) c match_all_selected Let_def written_def
        candidates_flat [OF c(1) c(2)])
qed

lemma written_automatic: "m \<in> set (written ext db img iid) \<Longrightarrow> is_automatic_of iid m"
  by (auto simp: written_def is_automatic_of_def new_match_def)

lemma filter_written: "filter (is_automatic_of iid) (written ext db img iid) = written ext db img iid"
  using written_automatic by (simp add: filter_id_conv)

lemma delete_written: "delete_automatic iid (written ext db img iid) = []"
  using written_automatic by (auto simp: delete_automatic_def filter_empty_conv)

lemma delete_automatic_idem: "delete_automatic iid (delete_automatic iid ms) = delete_automatic iid ms"
  by (simp add: delete_automatic_def)

lemma filter_delete: "filter (is_automatic_of iid) (delete_automatic iid ms) = []"
  by (simp add: delete_automatic_def filter_empty_conv)

lemma commit_matches_cases:
  "commit_matches db kept added count = (r, db') \<Longrightarrow>
     (\<exists>e. r = Inl e \<and> db' = db) \<or>
     (r = Inr count \<and> db' = db\<lparr>image_catalog_matches := kept @ added\<rparr>
        \<and> \<not> list_ex (\<lambda>m. match_key m \<in> set (map match_key kept)) added
        \<and> distinct (map match_key added)
        \<and> \<not> list_ex (\<lambda>m. length (catalog_designation m) > 20) added)"
  by (auto simp: commit_matches_def split: if_splits)

lemma session_get_matches [simp]:
  "session_get (db\<lparr>image_catalog_matches := ms\<rparr>) iid = session_get db iid"
  by (simp add: session_get_def)

lemma candidates_matches [simp]:
  "candidates ext (db\<lparr>image_catalog_matches := ms\<rparr>) img = candidates ext db img"
  by (simp add: candidates_def field_matches_def find_messier_in_field_def find_ngc_in_field_def
      find_named_stars_in_field_def split: option.splits)

lemma get_catalog_coords_matches [simp]:
  "get_catalog_coords (db\<lparr>image_catalog_matches := ms\<rparr>) cat_type desig =
     get_catalog_coords db cat_type desig"
  by (cases cat_type) (simp_all add: get_catalog_coords_def split: sum.splits option.splits)

lemma validated_matches [simp]:
  "validated ext (db\<lparr>image_catalog_matches := ms\<rparr>) wcs img = validated ext db wcs img"
  by (rule ext, cases wcs) (simp_all add: validated_def passes_validation_def)

lemma written_matches [simp]:
  "written ext (db\<lparr>image_catalog_matches := ms\<rparr>) img iid = written ext db img iid"
  by (simp add: written_def)

lemma match_image_idem:
  "match_image ext (snd (match_image ext db iid)) iid = match_image ext db iid"
proof (cases "session_get db iid")
  case None
  then show ?thesis by (simp add: match_image_missing)
next
  case (Some img)
  show ?thesis
  proof (cases "matchable img")
    case False
    with Some show ?thesis by (simp add: match_image_not_matchable)
  next
    case True
    let ?kept = "delete_automatic iid (image_catalog_matches db)"
    let ?w = "written ext db img iid"
    have first: "match_image ext db iid = commit_matches db ?kept ?w (length ?w)"
      by (rule match_image_matchable [OF Some True])
    obtain r db' where res: "commit_matches db ?kept ?w (length ?w) = (r, db')"
      by (cases "commit_matches db ?kept ?w (length ?w)")
    from commit_matches_cases [OF res] show ?thesis
    proof
      assume "\<exists>e. r = Inl e \<and> db' = db"
      then show ?thesis using first res by auto
    next
      assume ok: "r = Inr (length ?w) \<and> db' = db\<lparr>image_catalog_matches := ?kept @ ?w\<rparr>
        \<and> \<not> list_ex (\<lambda>m. match_key m \<in> set (map match_key ?kept)) ?w
        \<and> distinct (map match_key ?w)
        \<and> \<not> list_ex (\<lambda>m. length (catalog_designation m) > 20) ?w"
      have get': "session_get db' iid = Some img" using ok Some by simp
      have kept': "delete_automatic iid (image_catalog_matches db') = ?kept"
        using ok by (simp add: delete_automatic_def delete_written [unfolded delete_automatic_def]
            filter_empty_conv)
      have w': "written ext db' img iid = ?w" using ok by simp
      have "match_image ext db' iid = commit_matches db' ?kept ?w (length ?w)"
        using match_image_matchable [OF get' True, of ext] by (simp add: kept' w')
      also have "\<dots> = (Inr (length ?w), db')"
        using ok by (simp add: commit_matches_def)
      finally show ?thesis using first res ok by simp
    qed
  qed
qed

lemma match_image_success:
  assumes "session_get db iid = Some img" and "matchable img"
    and "match_image ext db iid = (Inr n, db')"
  shows "image_catalog_matches db' =
           delete_automatic iid (image_catalog_matches db) @ written ext db img iid"
    and "automatic_rows iid db' = written ext db img iid"
    and "n = length (written ext db img iid)"
    and "db' = db\<lparr>image_catalog_matches :=
                   delete_automatic iid (image_catalog_matches db) @ written ext db img iid\<rparr>"
proof -
  let ?kept = "delete_automatic iid (image_catalog_matches db)"
  let ?w = "written ext db img iid"
  have "commit_matches db ?kept ?w (length ?w) = (Inr n, db')"
    using match_image_matchable [OF assms(1,2), of ext] assms(3) by simp
  from commit_matches_cases [OF this]
  have n: "n = length ?w" and db': "db' = db\<lparr>image_catalog_matches := ?kept @ ?w\<rparr>" by auto
  show "n = length ?w" by (rule n)
  show "db' = db\<lparr>image_catalog_matches := ?kept @ ?w\<rparr>" by (rule db')
  show "image_catalog_matches db' = ?kept @ ?w" by (simp add: db')
  show "automatic_rows iid db' = ?w"
    by (simp add: db' automatic_rows_def filter_delete filter_written)
qed

lemma written_key: "map catalog_key (written ext db img iid) =
    map candidate_key (selected (validated ext db (construct_wcs ext img) img) {} (candidates ext db img))"
  by (simp add: written_def catalog_key_def candidate_key_def new_match_def comp_def)

lemma written_validated:
  assumes "m \<in> set (written ext db img iid)"
  shows "passes_validation ext db (construct_wcs ext img) img (catalog_type m) (catalog_designation m)"
proof -
  from assms obtain c where c: "c \<in> set (selected (validated ext db (construct_wcs ext img) img) {} (candidates ext db img))"
    and m: "m = new_match iid (fst c) (snd c)" by (auto simp: written_def)
  from selected_ok [OF c] show ?thesis by (simp add: m validated_def new_match_def candidate_key_def)
qed

lemma is_in_image_bounds_iff:
  "is_in_image_bounds ext w ra dec width height =
     (\<exists>x y wd ht. world_to_pixel_values ext w ra dec = Some (x, y) \<and>
        width = Some wd \<and> height = Some ht \<and>
        - 100 \<le> x \<and> x \<le> real_of_int wd + 100 \<and>
        - 100 \<le> y \<and> y \<le> real_of_int ht + 100)"
proof (cases "world_to_pixel_values ext w ra dec")
  case None
  then show ?thesis by (simp add: is_in_image_bounds_def)
next
  case (Some p)
  obtain x y where p: "p = (x, y)" by (cases p)
  show ?thesis
    by (cases width; cases height) (simp_all add: is_in_image_bounds_def Some p)
qed

lemma passes_validation_bounds:
  assumes "passes_validation ext db (Some w) img cat_type desig"
  shows "\<exists>ra dec x y wd ht.
           get_catalog_coords db cat_type desig = Some (ra, dec) \<and>
           world_to_pixel_values ext w ra dec = Some (x, y) \<and>
           width_pixels img = Some wd \<and> height_pixels img = Some ht \<and>
           - 100 \<le> x \<and> x \<le> real_of_int wd + 100 \<and>
           - 100 \<le> y \<and> y \<le> real_of_int ht + 100"
proof (cases "get_catalog_coords db cat_type desig")
  case None
  with assms show ?thesis by (simp add: passes_validation_def)
next
  case (Some p)
  obtain ra dec where p: "p = (ra, dec)" by (cases p)
  from assms have "is_in_image_bounds ext w ra dec (width_pixels img) (height_pixels img)"
    by (simp add: passes_validation_def Some p)
  then show ?thesis unfolding is_in_image_bounds_iff Some p by blast
qed

lemma written_keys_degraded:
  assumes "construct_wcs ext img = None"
  shows "catalog_key ` set (written ext db img iid) = candidate_key ` set (candidates ext db img)"
proof -
  have "catalog_key ` set (written ext db img iid) = set (map catalog_key (written ext db img iid))"
    by simp
  also have "\<dots> = candidate_key ` set (selected (validated ext db None img) {} (candidates ext db img))"
    by (simp add: written_key assms)
  also have "\<dots> = candidate_key ` set (candidates ext db img)"
    by (auto simp: selected_keys validated_def passes_validation_def)
  finally show ?thesis .
qed

subsection \<open>Instances and further lemmas\<close>

lemma ex_get: "session_get example_db 1 = Some example_image"
  by (simp add: session_get_def example_db_def example_image_def)

lemma ex_matchable: "matchable example_image"
  by (simp add: matchable_def example_image_def)

lemma ex_wcs: "construct_wcs example_external example_image =
   Some \<lparr>crpix = (500, 500), crval = (10, 41), cd = ((- (1 / 1800), 0), (0, - (1 / 1800)))\<rparr>"
  by (simp add: construct_wcs_def example_external_def example_image_def Let_def)

lemma ex_candidates: "candidates example_external example_db example_image =
  [(MESSIER, \<lparr>row_designation = ''M31'', dist = 0\<rparr>),
   (MESSIER, \<lparr>row_designation = ''M32'', dist = 0.75\<rparr>),
   (NGC, \<lparr>row_designation = ''NGC224'', dist = 0\<rparr>),
   (NAMED_STAR, \<lparr>row_designation = ''HD 3969'', dist = 0.25\<rparr>)]"
  by (simp add: candidates_def field_matches_def search_radius_def find_messier_in_field_def
      find_ngc_in_field_def find_named_stars_in_field_def find_in_field_def
      example_external_def example_image_def example_db_def Let_def)

lemma ex_coords:
  "get_catalog_coords example_db MESSIER ''M31'' = Some (10, 41)"
  "get_catalog_coords example_db MESSIER ''M32'' = Some (10, 41.75)"
  "get_catalog_coords example_db NGC ''NGC224'' = Some (10, 41)"
  "get_catalog_coords example_db NAMED_STAR ''HD 3969'' = Some (10.25, 41)"
  by (simp_all add: get_catalog_coords_def example_db_def coords_of_def remove_spaces_def)

lemma ex_written: "written example_external example_db example_image 1 =
  [auto_row MESSIER ''M31'' 0 1, auto_row NGC ''NGC224'' 0 1, auto_row NAMED_STAR ''HD 3969'' 0.25 0.95]"
  unfolding written_def ex_candidates ex_wcs
  by (simp add: validated_def passes_validation_def ex_coords
      is_in_image_bounds_def candidate_key_def new_match_def auto_row_def
      example_external_def example_image_def)

lemma ex_match_image: "match_image example_external example_db 1 = (Inr 3, example_db_matched)"
  unfolding match_image_matchable [OF ex_get ex_matchable] ex_written
  by (simp add: commit_matches_def example_db_def example_db_matched_def delete_automatic_def
      is_automatic_of_def manual_row_def stale_row_def other_row_def auto_row_def match_key_def)

lemma ex_wcs': "construct_wcs example_external example_image = Some example_wcs"
  by (simp add: ex_wcs example_wcs_def)

lemma ex_automatic: "automatic_rows 1 example_db_matched =
   [auto_row MESSIER ''M31'' 0 1, auto_row NGC ''NGC224'' 0 1, auto_row NAMED_STAR ''HD 3969'' 0.25 0.95]"
  by (simp add: automatic_rows_def example_db_matched_def is_automatic_of_def manual_row_def
      other_row_def auto_row_def)

lemma dg_get: "session_get degraded_db 1 = Some degraded_image"
  by (simp add: session_get_def degraded_db_def degraded_image_def example_image_def)

lemma dg_matchable: "matchable degraded_image"
  by (simp add: matchable_def degraded_image_def example_image_def)

lemma dg_wcs: "construct_wcs example_external degraded_image = None"
  by (simp add: construct_wcs_def degraded_image_def example_image_def)

lemma dg_candidates: "candidates example_external degraded_db degraded_image =
  [(MESSIER, \<lparr>row_designation = ''M31'', dist = 0\<rparr>),
   (MESSIER, \<lparr>row_designation = ''M32'', dist = 0.75\<rparr>),
   (NGC, \<lparr>row_designation = ''NGC224'', dist = 0\<rparr>),
   (NAMED_STAR, \<lparr>row_designation = ''HD 3969'', dist = 0.25\<rparr>)]"
  by (simp add: candidates_def field_matches_def search_radius_def find_messier_in_field_def
      find_ngc_in_field_def find_named_stars_in_field_def find_in_field_def
      example_external_def example_image_def example_db_def degraded_db_def degraded_image_def Let_def)

lemma dg_written: "written example_external degraded_db degraded_image 1 =
  [auto_row MESSIER ''M31'' 0 1, auto_row MESSIER ''M32'' 0.75 0.85,
   auto_row NGC ''NGC224'' 0 1, auto_row NAMED_STAR ''HD 3969'' 0.25 0.95]"
  unfolding written_def dg_candidates dg_wcs
  by (simp add: validated_def passes_validation_def candidate_key_def new_match_def auto_row_def)

lemma dg_match_image: "match_image example_external degraded_db 1 = (Inr 4, degraded_db_matched)"
  unfolding match_image_matchable [OF dg_get dg_matchable] dg_written
  by (simp add: commit_matches_def example_db_def degraded_db_def degraded_db_matched_def delete_automatic_def
      is_automatic_of_def manual_row_def stale_row_def other_row_def auto_row_def match_key_def)

lemma match_image_result_cases:
  "match_image ext db iid = (r, db') \<Longrightarrow>
     db' = db \<or>
     (\<exists>img n. session_get db iid = Some img \<and> matchable img \<and> r = Inr n \<and>
        db' = db\<lparr>image_catalog_matches :=
                 delete_automatic iid (image_catalog_matches db) @ written ext db img iid\<rparr> \<and>
        \<not> list_ex (\<lambda>m. match_key m \<in> set (map match_key (delete_automatic iid (image_catalog_matches db))))
             (written ext db img iid) \<and>
        distinct (map match_key (written ext db img iid)))"
proof (cases "session_get db iid")
  case None
  assume "match_image ext db iid = (r, db')"
  with None show ?thesis by (simp add: match_image_missing)
next
  case (Some img)
  assume res: "match_image ext db iid = (r, db')"
  show ?thesis
  proof (cases "matchable img")
    case False
    with Some res show ?thesis by (simp add: match_image_not_matchable)
  next
    case True
    from res have "commit_matches db (delete_automatic iid (image_catalog_matches db))
        (written ext db img iid) (length (written ext db img iid)) = (r, db')"
      by (simp add: match_image_matchable [OF Some True])
    from commit_matches_cases [OF this] Some True show ?thesis by auto
  qed
qed

lemma match_image_keeps_others:
  assumes "match_image ext db iid = (r, db')"
  shows "delete_automatic iid (image_catalog_matches db') = delete_automatic iid (image_catalog_matches db)"
  using match_image_result_cases [OF assms]
proof
  assume "db' = db"
  then show ?thesis by simp
next
  assume "\<exists>img n. session_get db iid = Some img \<and> matchable img \<and> r = Inr n \<and>
        db' = db\<lparr>image_catalog_matches :=
                 delete_automatic iid (image_catalog_matches db) @ written ext db img iid\<rparr> \<and>
        \<not> list_ex (\<lambda>m. match_key m \<in> set (map match_key (delete_automatic iid (image_catalog_matches db))))
             (written ext db img iid) \<and>
        distinct (map match_key (written ext db img iid))"
  then obtain img where
    "db' = db\<lparr>image_catalog_matches :=
                 delete_automatic iid (image_catalog_matches db) @ written ext db img iid\<rparr>"
    by blast
  then have "delete_automatic iid (image_catalog_matches db') =
      delete_automatic iid (delete_automatic iid (image_catalog_matches db))
        @ delete_automatic iid (written ext db img iid)"
    by (simp add: delete_automatic_def)
  then show ?thesis by (simp add: delete_automatic_idem delete_written)
qed

lemma match_image_tables:
  assumes "match_image ext db iid = (r, db')"
  shows "images db' = images db \<and> messier_catalog db' = messier_catalog db \<and>
         ngc_catalog db' = ngc_catalog db \<and> named_star_catalog db' = named_star_catalog db"
  using match_image_result_cases [OF assms] by auto

lemma match_image_unique_preserved:
  assumes "distinct (map match_key (image_catalog_matches db))"
  shows "distinct (map match_key (image_catalog_matches (snd (match_image ext db iid))))"
proof -
  obtain r db' where res: "match_image ext db iid = (r, db')" by (cases "match_image ext db iid")
  from match_image_result_cases [OF res] show ?thesis
  proof
    assume "db' = db"
    with res assms show ?thesis by simp
  next
    assume "\<exists>img n. session_get db iid = Some img \<and> matchable img \<and> r = Inr n \<and>
        db' = db\<lparr>image_catalog_matches :=
                 delete_automatic iid (image_catalog_matches db) @ written ext db img iid\<rparr> \<and>
        \<not> list_ex (\<lambda>m. match_key m \<in> set (map match_key (delete_automatic iid (image_catalog_matches db))))
             (written ext db img iid) \<and>
        distinct (map match_key (written ext db img iid))"
    then obtain img where db': "db' = db\<lparr>image_catalog_matches :=
                 delete_automatic iid (image_catalog_matches db) @ written ext db img iid\<rparr>"
      and fresh: "\<not> list_ex (\<lambda>m. match_key m \<in> set (map match_key (delete_automatic iid (image_catalog_matches db))))
             (written ext db img iid)"
      and dw: "distinct (map match_key (written ext db img iid))" by blast
    have dk: "distinct (map match_key (delete_automatic iid (image_catalog_matches db)))"
      using assms by (simp add: delete_automatic_def distinct_map_filter)
    from fresh have "set (map match_key (delete_automatic iid (image_catalog_matches db)))
        \<inter> set (map match_key (written ext db img iid)) = {}"
      by (auto simp: list_ex_iff)
    with dk dw have "distinct (map match_key (image_catalog_matches db'))"
      by (simp add: db')
    with res show ?thesis by simp
  qed
qed

lemma written_first:
  assumes "m \<in> set (written ext db img iid)"
  shows "\<exists>c. find (\<lambda>d. candidate_key d = catalog_key m) (candidates ext db img) = Some c \<and>
             m = new_match iid (fst c) (snd c)"
proof -
  from assms obtain c where c: "c \<in> set (selected (validated ext db (construct_wcs ext img) img) {} (candidates ext db img))"
    and m: "m = new_match iid (fst c) (snd c)" by (auto simp: written_def)
  have "catalog_key m = candidate_key c"
    by (simp add: m catalog_key_def candidate_key_def new_match_def)
  with selected_first [OF c] m show ?thesis by auto
qed

lemma written_distinct: "distinct (map catalog_key (written ext db img iid))"
  by (simp add: written_key selected_distinct)

lemma ex_tables:
  "image_catalog_matches example_db = [manual_row, stale_row, other_row]"
  "image_catalog_matches example_db_matched =
     [manual_row, other_row, auto_row MESSIER ''M31'' 0 1, auto_row NGC ''NGC224'' 0 1,
      auto_row NAMED_STAR ''HD 3969'' 0.25 0.95]"
  by (simp_all add: example_db_def example_db_matched_def)

lemma ex_rows_distinct:
  "manual_row \<noteq> stale_row" "stale_row \<noteq> other_row" "manual_row \<noteq> other_row"
  by (simp_all add: manual_row_def stale_row_def other_row_def)

lemma ex_not_automatic:
  "\<not> is_automatic_of 1 manual_row" "\<not> is_automatic_of 1 other_row" "is_automatic_of 1 stale_row"
  "is_automatic_of 1 (auto_row cat_type desig sep conf)"
  by (simp_all add: is_automatic_of_def manual_row_def stale_row_def other_row_def auto_row_def)

lemma un_get: "session_get unsolved_db 1 = Some unsolved_image"
  by (simp add: session_get_def unsolved_db_def unsolved_image_def example_image_def)

lemma un_unsolved: "\<not> is_plate_solved unsolved_image"
  by (simp add: unsolved_image_def)

lemma nc_get: "session_get no_center_db 1 = Some no_center_image"
  by (simp add: session_get_def no_center_db_def no_center_image_def example_image_def)

lemma nc_center: "dec_center_degrees no_center_image = None" "is_plate_solved no_center_image"
  by (simp_all add: no_center_image_def example_image_def)

lemma ex_missing: "session_get example_db 7 = None"
  by (simp add: session_get_def example_db_def example_image_def)

lemma or_get: "session_get origin_db 1 = Some origin_image"
  by (simp add: session_get_def origin_db_def origin_image_def example_image_def)

lemma eq_get: "session_get equator_db 1 = Some equator_image"
  by (simp add: session_get_def equator_db_def equator_image_def example_image_def)

lemma wd_get: "session_get wide_db 1 = Some wide_image"
  by (simp add: session_get_def wide_db_def wide_image_def example_image_def)

lemma wd_matchable: "matchable wide_image"
  by (simp add: matchable_def wide_image_def example_image_def)

lemma wd_wcs: "construct_wcs example_external wide_image = None"
  by (simp add: construct_wcs_def wide_image_def example_image_def)

lemma wd_candidates: "candidates example_external wide_db wide_image =
  [(MESSIER, \<lparr>row_designation = ''M15'', dist = 10\<rparr>)]"
  by (simp add: candidates_def field_matches_def search_radius_def find_messier_in_field_def
      find_ngc_in_field_def find_named_stars_in_field_def find_in_field_def
      example_external_def example_image_def wide_db_def wide_image_def Let_def)

lemma wd_written: "written example_external wide_db wide_image 1 = [auto_row MESSIER ''M15'' 10 (- 1)]"
  unfolding written_def wd_candidates wd_wcs
  by (simp add: validated_def passes_validation_def candidate_key_def new_match_def auto_row_def)

lemma wd_match_image: "match_image example_external wide_db 1 = (Inr 1, wide_db_matched)"
  unfolding match_image_matchable [OF wd_get wd_matchable] wd_written
  by (simp add: commit_matches_def wide_db_def wide_db_matched_def delete_automatic_def
      auto_row_def match_key_def)

lemma wd_automatic: "automatic_rows 1 wide_db_matched = [auto_row MESSIER ''M15'' 10 (- 1)]"
  by (simp add: automatic_rows_def wide_db_matched_def ex_not_automatic)





lemma rescan_logic_upload:
  assumes "rescan_logic env db iid = (Upload_file path key url hs, db')"
  shows "\<exists>img. session_get db iid = Some img \<and> hs = prepare_hints (astrometry_status img) img"
proof -
  obtain provider api_key base_url where pc: "provider_config env = (provider, api_key, base_url)"
    by (cases "provider_config env")
  show ?thesis
  proof (cases "session_get db iid")
    case None
    with assms pc show ?thesis
      by (simp add: rescan_logic_def split: if_splits)
  next
    case (Some img)
    with assms pc show ?thesis
      by (simp add: rescan_logic_def Let_def split: if_splits)
  qed
qed

lemma rescan_image_upload:
  assumes "rescan_image env db iid = (Upload_file path key url hs, db')"
  shows "\<exists>img. session_get db iid = Some img \<and> hs = prepare_hints (astrometry_status img) img"
proof -
  obtain provider api_key base_url where pc: "provider_config env = (provider, api_key, base_url)"
    by (cases "provider_config env")
  show ?thesis
  proof (cases "session_get db iid")
    case None
    with assms show ?thesis by (simp add: rescan_image_def)
  next
    case (Some img)
    with assms pc show ?thesis
      by (simp add: rescan_image_def Let_def split: if_splits)
  qed
qed

lemma req_data_no_hints:
  "req_data session_key url [] =
     [(''publicly_visible'', Text ''n''), (''allow_commercial_use'', Text ''d''),
      (''allow_modifications'', Text ''d''), (''session'', Text session_key)]
     @ (if contains ''nova.astrometry.net'' url then []
        else [(''scale_units'', Text ''degwidth''), (''scale_lower'', Number 0.1),
              (''scale_upper'', Number 180.0)])"
  by (simp add: req_data_def Let_def)


lemma local_config: "provider_config local_env = (''local'', ''localkey'', ''http://solver.local/api'')"
  by (simp add: provider_config_def local_env_def)

lemma default_config: "provider_config default_env = (''nova'', ''novakey'', NOVA_API_URL)"
  by (simp add: provider_config_def default_env_def)

lemma fd_get: "session_get failed_db 1 = Some failed_image"
  by (simp add: session_get_def failed_db_def failed_image_def example_image_def)

lemma fd_active: "active_count failed_db = 0"
  by (simp add: active_count_def failed_db_def failed_image_def)

lemma fr_get: "session_get fresh_db 1 = Some fresh_image"
  by (simp add: session_get_def fresh_db_def fresh_image_def example_image_def)

lemma fr_active: "active_count fresh_db = 0"
  by (simp add: active_count_def fresh_db_def fresh_image_def)

lemma local_limits: "max_submissions local_env = 2" "lock_acquired local_env" "utcnow local_env = 1000000000"
  by (simp_all add: max_submissions_def local_env_def)

lemma upper_local: "upper ''local'' = ''LOCAL''"
  by (simp add: upper_def upper_char_def)

lemma fd_rescan:
  "rescan_logic local_env failed_db 1 =
     (Upload_file ''/data/m31.fits'' ''localkey'' ''http://solver.local/api'' [],
      failed_db\<lparr>images := [failed_image\<lparr>astrometry_status := ''SUBMITTED'',
                                           plate_solve_provider := Some ''LOCAL'',
                                           updated_at := Some 1000000000\<rparr>]\<rparr>)"
  unfolding rescan_logic_def local_config
  by (simp add: fd_get fd_active local_limits upper_local prepare_hints_def update_image_def)
     (simp add: failed_db_def failed_image_def example_image_def)

lemma fr_rescan:
  "rescan_logic local_env fresh_db 1 =
     (Upload_file ''/data/m31.fits'' ''localkey'' ''http://solver.local/api''
        [(''center_ra'', Number 10), (''center_dec'', Number 41), (''radius'', Number 1),
         (''scale_units'', Text ''arcsecperpix''), (''scale_lower'', Number 1.8),
         (''scale_upper'', Number 2.2)],
      fresh_db\<lparr>images := [fresh_image\<lparr>astrometry_status := ''SUBMITTED'',
                                         plate_solve_provider := Some ''LOCAL'',
                                         updated_at := Some 1000000000\<rparr>]\<rparr>)"
  unfolding rescan_logic_def local_config
  by (simp add: fr_get fr_active local_limits upper_local prepare_hints_def update_image_def)
     (simp add: fresh_db_def fresh_image_def example_image_def)

lemma fd_rescan_image:
  "rescan_image local_env failed_db 1 =
     (Upload_file ''/data/m31.fits'' ''localkey'' ''http://solver.local/api'' [],
      failed_db\<lparr>images := [failed_image\<lparr>astrometry_status := ''SUBMITTED'',
                                           plate_solve_provider := Some ''LOCAL'',
                                           updated_at := Some 1000000000\<rparr>]\<rparr>)"
  unfolding rescan_image_def local_config fd_get
  by (simp add: local_limits upper_local prepare_hints_def update_image_def)
     (simp add: failed_db_def failed_image_def example_image_def)

lemma local_not_nova: "\<not> contains ''nova.astrometry.net'' ''http://solver.local/api''"
  by simp

lemma busy_active: "active_count busy_db = 8"
  by (simp add: active_count_def busy_db_def fresh_image_def in_flight_def)

lemma busy_get: "session_get busy_db 1 = Some fresh_image"
  by (simp add: session_get_def busy_db_def fresh_image_def example_image_def)

lemma default_key: "effective_api_key default_env = ''novakey''"
  by (simp add: effective_api_key_def default_config)

lemma default_limits: "max_submissions default_env = 8" "lock_acquired default_env"
  by (simp_all add: max_submissions_def default_env_def)

lemma rescan_logic_throttle:
  assumes "effective_api_key env \<noteq> []" and "lock_acquired env"
    and "max_submissions env \<le> int (active_count db)"
  shows "rescan_logic env db iid = (Retry 20, db)"
proof -
  obtain provider api_key base_url where pc: "provider_config env = (provider, api_key, base_url)"
    by (cases "provider_config env")
  with assms(1) have "api_key \<noteq> []" by (simp add: effective_api_key_def)
  with assms(2,3) show ?thesis by (simp add: rescan_logic_def pc)
qed

lemma cleanup_images:
  "images (snd (cleanup_stuck_astrometry now flushed db)) =
     map (\<lambda>img. if is_stuck (now - 300000000) img
                then img\<lparr>astrometry_status := ''FAILED'', updated_at := Some flushed\<rparr>
                else img) (images db)"
proof (cases "filter (is_stuck (now - 300000000)) (images db) = []")
  case True
  then have "\<forall>img \<in> set (images db). \<not> is_stuck (now - 300000000) img"
    by (simp add: filter_empty_conv)
  then have "map (\<lambda>img. if is_stuck (now - 300000000) img
                then img\<lparr>astrometry_status := ''FAILED'', updated_at := Some flushed\<rparr>
                else img) (images db) = images db"
    by (simp add: map_idI)
  with True show ?thesis by (simp add: cleanup_stuck_astrometry_def)
next
  case False
  then show ?thesis by (simp add: cleanup_stuck_astrometry_def Let_def)
qed

lemma cleanup_count:
  "fst (cleanup_stuck_astrometry now flushed db) =
     length (filter (is_stuck (now - 300000000)) (images db))"
  by (simp add: cleanup_stuck_astrometry_def Let_def)

lemma cleanup_tables:
  "image_catalog_matches (snd (cleanup_stuck_astrometry now flushed db)) = image_catalog_matches db"
  "messier_catalog (snd (cleanup_stuck_astrometry now flushed db)) = messier_catalog db"
  "ngc_catalog (snd (cleanup_stuck_astrometry now flushed db)) = ngc_catalog db"
  "named_star_catalog (snd (cleanup_stuck_astrometry now flushed db)) = named_star_catalog db"
  by (simp_all add: cleanup_stuck_astrometry_def Let_def)

lemma is_stuck_iff:
  "is_stuck (now - 300000000) img \<longleftrightarrow>
     (astrometry_status img = ''SUBMITTED'' \<or> astrometry_status img = ''PROCESSING'') \<and>
     (\<exists>t. updated_at img = Some t \<and> t + 300000000 < now)"
  by (cases "updated_at img") (auto simp: is_stuck_def)

lemma reaper_run:
  "cleanup_stuck_astrometry 1000000000 1000000007 reaper_db =
     (1, reaper_db\<lparr>images :=
           [aged 1 ''FAILED'' 1000000007, aged 2 ''PROCESSING'' 940000000,
            aged 3 ''SOLVED'' 400000000,
            (aged 4 ''SUBMITTED'' 0)\<lparr>updated_at := None\<rparr>]\<rparr>)"
  by (simp add: cleanup_stuck_astrometry_def reaper_db_def aged_def is_stuck_def Let_def)

lemma find_in_field_designation:
  "row \<in> set (find_in_field ext tbl limit ra dec radius) \<Longrightarrow>
     row_designation row \<in> designation ` set tbl"
proof -
  let ?hits = "concat (map (\<lambda>obj.
                   (case location obj of
                      None \<Rightarrow> []
                    | Some loc \<Rightarrow>
                        if st_distance ext loc (ra, dec) \<le> radius * 111320
                        then [\<lparr>row_designation = designation obj,
                               dist = st_distance ext loc (ra, dec) / 111320.0\<rparr>]
                        else [])) tbl)"
  assume "row \<in> set (find_in_field ext tbl limit ra dec radius)"
  then have "row \<in> set ?hits"
    by (cases limit) (auto simp: find_in_field_def Let_def dest: in_set_takeD)
  then show ?thesis
    by (auto split: option.splits if_splits)
qed

lemma candidates_designation:
  assumes "c \<in> set (candidates ext db img)"
  shows "row_designation (snd c) \<in> designation ` set (catalog_table db (fst c))"
proof (cases "ra_center_degrees img")
  case None
  with assms show ?thesis by (simp add: candidates_def)
next
  case ra: (Some ra)
  show ?thesis
  proof (cases "dec_center_degrees img")
    case None
    with assms ra show ?thesis by (simp add: candidates_def)
  next
    case (Some dec)
    from assms have "c \<in> Pair MESSIER ` set (find_messier_in_field ext db ra dec (search_radius img))
        \<or> c \<in> Pair NGC ` set (find_ngc_in_field ext db ra dec (search_radius img))
        \<or> c \<in> Pair NAMED_STAR ` set (find_named_stars_in_field ext db ra dec (search_radius img))"
      by (auto simp: candidates_def ra Some field_matches_def)
    then show ?thesis
      by (auto simp: catalog_table_def find_messier_in_field_def find_ngc_in_field_def
          find_named_stars_in_field_def dest: find_in_field_designation)
  qed
qed

lemma scalar_one_or_none_Some:
  "scalar_one_or_none xs = Inr (Some x) \<longleftrightarrow> xs = [x]"
  by (cases xs rule: scalar_one_or_none.cases) auto

lemma scalar_one_or_none_None:
  "scalar_one_or_none xs = Inr None \<longleftrightarrow> xs = []"
  by (cases xs rule: scalar_one_or_none.cases) auto

lemma get_catalog_coords_own:
  assumes "get_catalog_coords db cat_type desig = Some p"
    and "desig \<in> designation ` set (catalog_table db cat_type)"
  shows "\<exists>obj. filter (\<lambda>s. designation s = desig) (catalog_table db cat_type) = [obj] \<and>
               p = (ra_degrees obj, dec_degrees obj)"
proof -
  let ?exact = "filter (\<lambda>s. designation s = desig) (catalog_table db cat_type)"
  from assms(2) have nonempty: "?exact \<noteq> []"
    by (auto simp: filter_empty_conv)
  then have not_none: "scalar_one_or_none ?exact \<noteq> Inr None"
    by (simp add: scalar_one_or_none_None)
  have "\<exists>obj. scalar_one_or_none ?exact = Inr (Some obj) \<and> p = coords_of obj"
  proof (cases cat_type)
    case MESSIER
    with assms(1) not_none show ?thesis
      by (auto simp: get_catalog_coords_def catalog_table_def split: sum.splits option.splits)
  next
    case NGC
    with assms(1) not_none show ?thesis
      by (auto simp: get_catalog_coords_def catalog_table_def split: sum.splits option.splits)
  next
    case IC
    with assms(1) not_none show ?thesis
      by (auto simp: get_catalog_coords_def catalog_table_def split: sum.splits option.splits)
  next
    case NAMED_STAR
    with assms(1) not_none show ?thesis
      by (auto simp: get_catalog_coords_def catalog_table_def split: sum.splits option.splits)
  qed
  then show ?thesis
    by (auto simp: scalar_one_or_none_Some coords_of_def)
qed

lemma written_candidate:
  assumes "m \<in> set (written ext db img iid)"
  shows "catalog_designation m \<in> designation ` set (catalog_table db (catalog_type m))"
proof -
  from assms obtain c where c: "c \<in> set (selected (validated ext db (construct_wcs ext img) img) {} (candidates ext db img))"
    and m: "m = new_match iid (fst c) (snd c)" by (auto simp: written_def)
  from c selected_subset have "c \<in> set (candidates ext db img)" by blast
  from candidates_designation [OF this] show ?thesis by (simp add: m new_match_def)
qed

lemma written_in_bounds:
  assumes "m \<in> set (written ext db img iid)" and "construct_wcs ext img = Some w"
  shows "\<exists>obj x y wd ht.
           filter (\<lambda>s. designation s = catalog_designation m)
             (catalog_table db (catalog_type m)) = [obj] \<and>
           get_catalog_coords db (catalog_type m) (catalog_designation m) =
             Some (ra_degrees obj, dec_degrees obj) \<and>
           world_to_pixel_values ext w (ra_degrees obj) (dec_degrees obj) = Some (x, y) \<and>
           width_pixels img = Some wd \<and> height_pixels img = Some ht \<and>
           - 100 \<le> x \<and> x \<le> real_of_int wd + 100 \<and>
           - 100 \<le> y \<and> y \<le> real_of_int ht + 100"
proof -
  from written_validated [OF assms(1)] assms(2)
  have "passes_validation ext db (Some w) img (catalog_type m) (catalog_designation m)" by simp
  from passes_validation_bounds [OF this] obtain ra dec x y wd ht where
    coords: "get_catalog_coords db (catalog_type m) (catalog_designation m) = Some (ra, dec)"
    and rest: "world_to_pixel_values ext w ra dec = Some (x, y)"
      "width_pixels img = Some wd" "height_pixels img = Some ht"
      "- 100 \<le> x" "x \<le> real_of_int wd + 100" "- 100 \<le> y" "y \<le> real_of_int ht + 100"
    by blast
  from get_catalog_coords_own [OF coords written_candidate [OF assms(1)]]
  obtain obj where obj: "filter (\<lambda>s. designation s = catalog_designation m)
             (catalog_table db (catalog_type m)) = [obj]"
    and p: "(ra, dec) = (ra_degrees obj, dec_degrees obj)" by blast
  from p have "ra = ra_degrees obj" "dec = dec_degrees obj" by simp_all
  with coords rest obj show ?thesis by blast
qed

lemma find_in_field_designations:
  "map row_designation (find_in_field ext tbl None ra dec radius) =
     map designation
       (filter (\<lambda>obj. case location obj of
                         None \<Rightarrow> False
                       | Some loc \<Rightarrow> st_distance ext loc (ra, dec) \<le> radius * 111320) tbl)"
  by (induction tbl) (auto simp: find_in_field_def Let_def split: option.splits)

lemma find_in_field_limit:
  "find_in_field ext tbl (Some k) ra dec radius = take k (find_in_field ext tbl None ra dec radius)"
  by (simp add: find_in_field_def Let_def)

lemma find_in_field_distinct:
  assumes "distinct (map designation tbl)"
  shows "distinct (map row_designation (find_in_field ext tbl limit ra dec radius))"
proof -
  have base: "distinct (map row_designation (find_in_field ext tbl None ra dec radius))"
    using assms by (simp add: find_in_field_designations distinct_map_filter)
  show ?thesis
  proof (cases limit)
    case None
    with base show ?thesis by simp
  next
    case (Some k)
    have "map row_designation (find_in_field ext tbl (Some k) ra dec radius) =
            take k (map row_designation (find_in_field ext tbl None ra dec radius))"
      by (simp add: find_in_field_limit take_map)
    with base Some show ?thesis by (simp add: distinct_take)
  qed
qed

lemma tagged_keys:
  "map candidate_key (map (Pair cat_type) rows) = map (Pair cat_type) (map row_designation rows)"
  by (simp add: candidate_key_def comp_def)

lemma tagged_distinct:
  "distinct (map row_designation rows) \<Longrightarrow> distinct (map candidate_key (map (Pair cat_type) rows))"
  unfolding tagged_keys by (simp add: distinct_map inj_on_def)

lemma tagged_type: "k \<in> set (map candidate_key (map (Pair cat_type) rows)) \<Longrightarrow> fst k = cat_type"
  unfolding tagged_keys by auto

lemma candidates_distinct:
  assumes "distinct (map designation (messier_catalog db))"
    and "distinct (map designation (ngc_catalog db))"
    and "distinct (map designation (named_star_catalog db))"
  shows "distinct (map candidate_key (candidates ext db img))"
proof (cases "ra_center_degrees img")
  case None
  then show ?thesis by (simp add: candidates_def)
next
  case ra: (Some ra)
  show ?thesis
  proof (cases "dec_center_degrees img")
    case None
    with ra show ?thesis by (simp add: candidates_def)
  next
    case (Some dec)
    let ?m = "map candidate_key (map (Pair MESSIER) (find_messier_in_field ext db ra dec (search_radius img)))"
    let ?n = "map candidate_key (map (Pair NGC) (find_ngc_in_field ext db ra dec (search_radius img)))"
    let ?s = "map candidate_key (map (Pair NAMED_STAR) (find_named_stars_in_field ext db ra dec (search_radius img)))"
    have eq: "map candidate_key (candidates ext db img) = ?m @ ?n @ ?s"
      by (simp add: candidates_def ra Some field_matches_def)
    have dm: "distinct ?m"
      by (rule tagged_distinct) (simp add: find_messier_in_field_def find_in_field_distinct assms(1))
    have dn: "distinct ?n"
      by (rule tagged_distinct) (simp add: find_ngc_in_field_def find_in_field_distinct assms(2))
    have ds: "distinct ?s"
      by (rule tagged_distinct) (simp add: find_named_stars_in_field_def find_in_field_distinct assms(3))
    have mn: "set ?m \<inter> set ?n = {}"
    proof -
      have False if "k \<in> set ?m" and "k \<in> set ?n" for k
        using tagged_type [OF that(1)] tagged_type [OF that(2)] by simp
      then show ?thesis by blast
    qed
    have ms: "set ?m \<inter> set ?s = {}"
    proof -
      have False if "k \<in> set ?m" and "k \<in> set ?s" for k
        using tagged_type [OF that(1)] tagged_type [OF that(2)] by simp
      then show ?thesis by blast
    qed
    have ns: "set ?n \<inter> set ?s = {}"
    proof -
      have False if "k \<in> set ?n" and "k \<in> set ?s" for k
        using tagged_type [OF that(1)] tagged_type [OF that(2)] by simp
      then show ?thesis by blast
    qed
    from dm dn ds mn ms ns show ?thesis
      unfolding eq by (simp add: Int_Un_distrib)
  qed
qed

lemma written_match_key:
  "m \<in> set (written ext db img iid) \<Longrightarrow> match_key m = (iid, catalog_key m)"
  by (auto simp: written_def match_key_def catalog_key_def new_match_def)

lemma written_match_key_distinct: "distinct (map match_key (written ext db img iid))"
proof -
  have "map match_key (written ext db img iid) = map (Pair iid) (map catalog_key (written ext db img iid))"
    using written_match_key [of _ ext db img iid] by simp
  then show ?thesis
    using written_distinct [of ext db img iid] by (simp add: distinct_map inj_on_def)
qed

lemma written_keys_validated:
  "catalog_key ` set (written ext db img iid) =
     {k \<in> candidate_key ` set (candidates ext db img).
        passes_validation ext db (construct_wcs ext img) img (fst k) (snd k)}"
proof -
  have "catalog_key ` set (written ext db img iid) = set (map catalog_key (written ext db img iid))"
    by simp
  also have "\<dots> = candidate_key `
      set (selected (validated ext db (construct_wcs ext img) img) {} (candidates ext db img))"
    by (simp add: written_key)
  also have "\<dots> = {k \<in> candidate_key ` set (candidates ext db img).
        passes_validation ext db (construct_wcs ext img) img (fst k) (snd k)}"
    by (simp add: selected_keys validated_def)
  finally show ?thesis .
qed

lemma match_image_succeeds:
  assumes get: "session_get db iid = Some img" and ok: "matchable img"
    and fits: "\<forall>c \<in> set (candidates ext db img).
       passes_validation ext db (construct_wcs ext img) img (fst c) (row_designation (snd c)) \<longrightarrow>
         length (row_designation (snd c)) \<le> 20 \<and>
         (iid, fst c, row_designation (snd c))
           \<notin> match_key ` set (delete_automatic iid (image_catalog_matches db))"
  shows "match_image ext db iid =
           (Inr (length (written ext db img iid)),
            db\<lparr>image_catalog_matches :=
                 delete_automatic iid (image_catalog_matches db) @ written ext db img iid\<rparr>)"
proof -
  let ?kept = "delete_automatic iid (image_catalog_matches db)"
  let ?w = "written ext db img iid"
  have each: "length (catalog_designation m) \<le> 20 \<and> match_key m \<notin> match_key ` set ?kept"
    if m: "m \<in> set ?w" for m
  proof -
    from m obtain c where c: "c \<in> set (selected (validated ext db (construct_wcs ext img) img) {}
          (candidates ext db img))"
      and mc: "m = new_match iid (fst c) (snd c)" by (auto simp: written_def)
    from c selected_subset have cand: "c \<in> set (candidates ext db img)" by blast
    from selected_ok [OF c]
    have "passes_validation ext db (construct_wcs ext img) img (fst c) (row_designation (snd c))"
      by (simp add: validated_def candidate_key_def)
    with fits cand have "length (row_designation (snd c)) \<le> 20 \<and>
         (iid, fst c, row_designation (snd c)) \<notin> match_key ` set ?kept" by blast
    then show ?thesis by (simp add: mc new_match_def match_key_def)
  qed
  have no_long: "\<not> list_ex (\<lambda>m. length (catalog_designation m) > 20) ?w"
  proof
    assume "list_ex (\<lambda>m. length (catalog_designation m) > 20) ?w"
    then obtain m where "m \<in> set ?w" and "length (catalog_designation m) > 20"
      by (auto simp: list_ex_iff)
    with each [of m] show False by simp
  qed
  have no_clash: "\<not> list_ex (\<lambda>m. match_key m \<in> set (map match_key ?kept)) ?w"
  proof
    assume "list_ex (\<lambda>m. match_key m \<in> set (map match_key ?kept)) ?w"
    then obtain m where "m \<in> set ?w" and "match_key m \<in> match_key ` set ?kept"
      by (auto simp: list_ex_iff)
    with each [of m] show False by simp
  qed
  show ?thesis
    unfolding match_image_matchable [OF get ok]
    using no_long no_clash written_match_key_distinct [of ext db img iid]
    by (simp add: commit_matches_def)
qed

lemma match_all_rows:
  assumes "match_all ext db wcs img iid all_matches ({}, [], 0) = (seen_keys, added, count)"
  shows "distinct (map catalog_key added) \<and> count = length added \<and>
         seen_keys = catalog_key ` set added \<and>
         (\<forall>m \<in> set added.
            \<exists>c. find (\<lambda>d. candidate_key d = catalog_key m)
                   (concat (map (\<lambda>(cat_type, rows). map (Pair cat_type) rows) all_matches)) = Some c \<and>
                m = new_match iid (fst c) (snd c))"
proof -
  let ?flat = "concat (map (\<lambda>(cat_type, rows). map (Pair cat_type) rows) all_matches)"
  let ?sel = "selected (validated ext db wcs img) {} ?flat"
  from assms have seen: "seen_keys = candidate_key ` set ?sel"
    and added: "added = map (\<lambda>c. new_match iid (fst c) (snd c)) ?sel"
    and count: "count = length ?sel"
    by (simp_all add: match_all_selected Let_def)
  have keys: "map catalog_key added = map candidate_key ?sel"
    by (simp add: added catalog_key_def candidate_key_def new_match_def comp_def)
  have d: "distinct (map catalog_key added)"
    by (simp add: keys selected_distinct)
  have s: "seen_keys = catalog_key ` set added"
  proof -
    have "catalog_key ` set added = set (map catalog_key added)" by simp
    also have "\<dots> = candidate_key ` set ?sel" by (simp add: keys)
    finally show ?thesis by (simp add: seen)
  qed
  have f: "\<forall>m \<in> set added.
            \<exists>c. find (\<lambda>d. candidate_key d = catalog_key m) ?flat = Some c \<and>
                m = new_match iid (fst c) (snd c)"
  proof
    fix m
    assume "m \<in> set added"
    then obtain c where c: "c \<in> set ?sel" and m: "m = new_match iid (fst c) (snd c)"
      by (auto simp: added)
    have "catalog_key m = candidate_key c"
      by (simp add: m catalog_key_def candidate_key_def new_match_def)
    with selected_first [OF c] m
    show "\<exists>c. find (\<lambda>d. candidate_key d = catalog_key m) ?flat = Some c \<and>
                m = new_match iid (fst c) (snd c)" by auto
  qed
  from d count added s f show ?thesis by simp
qed

lemma rep_loop:
  "match_all example_external example_db None example_image 1 repeated_matches ({}, [], 0) =
     ({(MESSIER, ''M31''), (NGC, ''NGC224'')},
      [auto_row MESSIER ''M31'' 0 1, auto_row NGC ''NGC224'' 0 1], 2)"
  by (simp add: repeated_matches_def passes_validation_def new_match_def auto_row_def Let_def insert_commute)

lemma ex_fits:
  "\<forall>c \<in> set (candidates example_external example_db example_image).
     passes_validation example_external example_db
       (construct_wcs example_external example_image) example_image
       (fst c) (row_designation (snd c)) \<longrightarrow>
     length (row_designation (snd c)) \<le> 20 \<and>
     (1, fst c, row_designation (snd c))
       \<notin> match_key ` set (delete_automatic 1 (image_catalog_matches example_db))"
  unfolding ex_candidates
  by (simp add: example_db_def delete_automatic_def is_automatic_of_def match_key_def
      manual_row_def stale_row_def other_row_def)

lemma ex_tables_distinct:
  "distinct (map designation (messier_catalog example_db))"
  "distinct (map designation (ngc_catalog example_db))"
  "distinct (map designation (named_star_catalog example_db))"
  by (simp_all add: example_db_def)

section \<open>Claims about the matcher\<close>

text \<open>
  C1 (pixel bounds). Let \<open>match_image\<close> succeed on an image that passes its guards. If
  the WCS construction gives a model \<open>w\<close>, every AUTOMATIC row of the image afterwards
  names a catalog object, the only one of its designation in its table, whose coordinates
  project under \<open>w\<close> to a pixel \<open>(x, y)\<close> with \<open>-100 \<le> x \<le> width + 100\<close> and
  \<open>-100 \<le> y \<le> height + 100\<close>. If the construction gives no model, the keys of the rows
  written are exactly the keys of the candidates the three field queries returned: nothing
  is filtered out.
\<close>

theorem match_image_pixel_bounds:
  assumes "session_get db iid = Some img" and "matchable img"
    and "match_image ext db iid = (Inr n, db')"
  shows "(\<forall>w. construct_wcs ext img = Some w \<longrightarrow>
            (\<forall>m \<in> set (automatic_rows iid db').
               \<exists>obj x y wd ht.
                 filter (\<lambda>s. designation s = catalog_designation m)
                   (catalog_table db (catalog_type m)) = [obj] \<and>
                 get_catalog_coords db (catalog_type m) (catalog_designation m) =
                   Some (ra_degrees obj, dec_degrees obj) \<and>
                 world_to_pixel_values ext w (ra_degrees obj) (dec_degrees obj) = Some (x, y) \<and>
                 width_pixels img = Some wd \<and> height_pixels img = Some ht \<and>
                 - 100 \<le> x \<and> x \<le> real_of_int wd + 100 \<and>
                 - 100 \<le> y \<and> y \<le> real_of_int ht + 100))
       \<and> (construct_wcs ext img = None \<longrightarrow>
            catalog_key ` set (automatic_rows iid db') = candidate_key ` set (candidates ext db img))"
proof (intro conjI allI impI ballI)
  fix w m
  assume w: "construct_wcs ext img = Some w" and m: "m \<in> set (automatic_rows iid db')"
  from m have "m \<in> set (written ext db img iid)"
    by (simp add: match_image_success(2) [OF assms])
  then show "\<exists>obj x y wd ht.
                 filter (\<lambda>s. designation s = catalog_designation m)
                   (catalog_table db (catalog_type m)) = [obj] \<and>
                 get_catalog_coords db (catalog_type m) (catalog_designation m) =
                   Some (ra_degrees obj, dec_degrees obj) \<and>
                 world_to_pixel_values ext w (ra_degrees obj) (dec_degrees obj) = Some (x, y) \<and>
                 width_pixels img = Some wd \<and> height_pixels img = Some ht \<and>
                 - 100 \<le> x \<and> x \<le> real_of_int wd + 100 \<and>
                 - 100 \<le> y \<and> y \<le> real_of_int ht + 100"
    using w by (rule written_in_bounds)
next
  assume "construct_wcs ext img = None"
  then show "catalog_key ` set (automatic_rows iid db') = candidate_key ` set (candidates ext db img)"
    by (simp add: match_image_success(2) [OF assms] written_keys_degraded)
qed

theorem match_image_pixel_bounds_witness:
  "session_get example_db 1 = Some example_image \<and> matchable example_image \<and>
   match_image example_external example_db 1 = (Inr 3, example_db_matched) \<and>
   construct_wcs example_external example_image = Some example_wcs \<and>
   auto_row NAMED_STAR ''HD 3969'' 0.25 0.95 \<in> set (automatic_rows 1 example_db_matched) \<and>
   (\<exists>obj x y wd ht.
      filter (\<lambda>s. designation s = ''HD 3969'') (catalog_table example_db NAMED_STAR) = [obj] \<and>
      get_catalog_coords example_db NAMED_STAR ''HD 3969'' =
        Some (ra_degrees obj, dec_degrees obj) \<and>
      world_to_pixel_values example_external example_wcs (ra_degrees obj) (dec_degrees obj) =
        Some (x, y) \<and>
      width_pixels example_image = Some wd \<and> height_pixels example_image = Some ht \<and>
      - 100 \<le> x \<and> x \<le> real_of_int wd + 100 \<and> - 100 \<le> y \<and> y \<le> real_of_int ht + 100) \<and>
   catalog_key ` set (automatic_rows 1 example_db_matched) =
     {(MESSIER, ''M31''), (NGC, ''NGC224''), (NAMED_STAR, ''HD 3969'')} \<and>
   session_get degraded_db 1 = Some degraded_image \<and> matchable degraded_image \<and>
   match_image example_external degraded_db 1 = (Inr 4, degraded_db_matched) \<and>
   construct_wcs example_external degraded_image = None \<and>
   catalog_key ` set (automatic_rows 1 degraded_db_matched) =
     candidate_key ` set (candidates example_external degraded_db degraded_image) \<and>
   candidate_key ` set (candidates example_external degraded_db degraded_image) =
     {(MESSIER, ''M31''), (MESSIER, ''M32''), (NGC, ''NGC224''), (NAMED_STAR, ''HD 3969'')}"
proof -
  have star: "auto_row NAMED_STAR ''HD 3969'' 0.25 0.95 \<in> set (automatic_rows 1 example_db_matched)"
    by (simp add: ex_automatic)
  have "\<exists>obj x y wd ht.
      filter (\<lambda>s. designation s = catalog_designation (auto_row NAMED_STAR ''HD 3969'' 0.25 0.95))
        (catalog_table example_db (catalog_type (auto_row NAMED_STAR ''HD 3969'' 0.25 0.95))) = [obj] \<and>
      get_catalog_coords example_db (catalog_type (auto_row NAMED_STAR ''HD 3969'' 0.25 0.95))
        (catalog_designation (auto_row NAMED_STAR ''HD 3969'' 0.25 0.95)) =
        Some (ra_degrees obj, dec_degrees obj) \<and>
      world_to_pixel_values example_external example_wcs (ra_degrees obj) (dec_degrees obj) =
        Some (x, y) \<and>
      width_pixels example_image = Some wd \<and> height_pixels example_image = Some ht \<and>
      - 100 \<le> x \<and> x \<le> real_of_int wd + 100 \<and> - 100 \<le> y \<and> y \<le> real_of_int ht + 100"
    using match_image_pixel_bounds [OF ex_get ex_matchable ex_match_image] ex_wcs' star by blast
  then have bounds: "\<exists>obj x y wd ht.
      filter (\<lambda>s. designation s = ''HD 3969'') (catalog_table example_db NAMED_STAR) = [obj] \<and>
      get_catalog_coords example_db NAMED_STAR ''HD 3969'' =
        Some (ra_degrees obj, dec_degrees obj) \<and>
      world_to_pixel_values example_external example_wcs (ra_degrees obj) (dec_degrees obj) =
        Some (x, y) \<and>
      width_pixels example_image = Some wd \<and> height_pixels example_image = Some ht \<and>
      - 100 \<le> x \<and> x \<le> real_of_int wd + 100 \<and> - 100 \<le> y \<and> y \<le> real_of_int ht + 100"
    by (simp add: auto_row_def)
  have degraded: "catalog_key ` set (automatic_rows 1 degraded_db_matched) =
     candidate_key ` set (candidates example_external degraded_db degraded_image)"
    using match_image_pixel_bounds [OF dg_get dg_matchable dg_match_image] dg_wcs by blast
  have keys: "catalog_key ` set (automatic_rows 1 example_db_matched) =
     {(MESSIER, ''M31''), (NGC, ''NGC224''), (NAMED_STAR, ''HD 3969'')}"
    by (simp add: ex_automatic catalog_key_def auto_row_def)
  have cands: "candidate_key ` set (candidates example_external degraded_db degraded_image) =
     {(MESSIER, ''M31''), (MESSIER, ''M32''), (NGC, ''NGC224''), (NAMED_STAR, ''HD 3969'')}"
    by (simp add: dg_candidates candidate_key_def)
  show ?thesis
    using ex_get ex_matchable ex_match_image ex_wcs' star bounds keys
      dg_get dg_matchable dg_match_image dg_wcs degraded cands
    by blast
qed

text \<open>
  C4 (no-op). For an image that does not exist, is not plate-solved or lacks a centre
  coordinate, \<open>match_image\<close> returns 0 and the database is the one it started from:
  nothing is deleted and nothing is inserted.
\<close>

theorem match_image_noop:
  assumes "session_get db iid = None \<or>
           (\<exists>img. session_get db iid = Some img \<and>
                  (\<not> is_plate_solved img \<or> ra_center_degrees img = None \<or>
                   dec_center_degrees img = None))"
  shows "match_image ext db iid = (Inr 0, db)"
  using assms
proof
  assume "session_get db iid = None"
  then show ?thesis by (rule match_image_missing)
next
  assume "\<exists>img. session_get db iid = Some img \<and>
                  (\<not> is_plate_solved img \<or> ra_center_degrees img = None \<or>
                   dec_center_degrees img = None)"
  then obtain img where get: "session_get db iid = Some img"
    and bad: "\<not> is_plate_solved img \<or> ra_center_degrees img = None \<or> dec_center_degrees img = None"
    by blast
  from bad have "\<not> matchable img" by (auto simp: matchable_def)
  with get show ?thesis by (rule match_image_not_matchable)
qed

theorem match_image_noop_witness:
  "session_get example_db 7 = None \<and>
   match_image example_external example_db 7 = (Inr 0, example_db) \<and>
   session_get unsolved_db 1 = Some unsolved_image \<and> \<not> is_plate_solved unsolved_image \<and>
   match_image example_external unsolved_db 1 = (Inr 0, unsolved_db) \<and>
   image_catalog_matches unsolved_db = [manual_row, stale_row, other_row] \<and>
   session_get no_center_db 1 = Some no_center_image \<and>
   is_plate_solved no_center_image \<and> dec_center_degrees no_center_image = None \<and>
   match_image example_external no_center_db 1 = (Inr 0, no_center_db)"
proof -
  have a: "match_image example_external example_db 7 = (Inr 0, example_db)"
    using match_image_noop [of example_db 7 example_external] ex_missing by simp
  have b: "match_image example_external unsolved_db 1 = (Inr 0, unsolved_db)"
    using match_image_noop [of unsolved_db 1 example_external] un_get un_unsolved by simp
  have c: "match_image example_external no_center_db 1 = (Inr 0, no_center_db)"
    using match_image_noop [of no_center_db 1 example_external] nc_get nc_center by simp
  have d: "image_catalog_matches unsolved_db = [manual_row, stale_row, other_row]"
    by (simp add: unsolved_db_def example_db_def)
  show ?thesis using a b c d ex_missing un_get un_unsolved nc_get nc_center by simp
qed

text \<open>
  C10 (zero centre). A centre coordinate equal to 0 is falsy in the guard
  \<^verbatim>\<open>if not image.ra_center_degrees or not image.dec_center_degrees\<close>: for every image
  whose right ascension or declination of the centre is exactly 0, \<open>match_image\<close> returns
  0 and leaves the database as it was, whatever the other fields are.
\<close>

theorem match_image_zero_center:
  assumes "session_get db iid = Some img"
    and "ra_center_degrees img = Some 0 \<or> dec_center_degrees img = Some 0"
  shows "match_image ext db iid = (Inr 0, db)"
proof -
  from assms(2) have "\<not> matchable img" by (auto simp: matchable_def)
  with assms(1) show ?thesis by (rule match_image_not_matchable)
qed

theorem match_image_zero_center_witness:
  "session_get origin_db 1 = Some origin_image \<and>
   is_plate_solved origin_image \<and> astrometry_status origin_image = ''SOLVED'' \<and>
   ra_center_degrees origin_image = Some 0 \<and> dec_center_degrees origin_image = Some 41 \<and>
   field_radius_degrees origin_image = Some 1 \<and> pixel_scale_arcsec origin_image = Some 2 \<and>
   width_pixels origin_image = Some 1000 \<and> height_pixels origin_image = Some 1000 \<and>
   match_image example_external origin_db 1 = (Inr 0, origin_db) \<and>
   session_get equator_db 1 = Some equator_image \<and>
   ra_center_degrees equator_image = Some 10 \<and> dec_center_degrees equator_image = Some 0 \<and>
   match_image example_external equator_db 1 = (Inr 0, equator_db)"
proof -
  have ra0: "ra_center_degrees origin_image = Some 0"
    by (simp add: origin_image_def)
  have dec0: "dec_center_degrees equator_image = Some 0"
    by (simp add: equator_image_def)
  have a: "match_image example_external origin_db 1 = (Inr 0, origin_db)"
    using match_image_zero_center [OF or_get, of example_external] ra0 by simp
  have b: "match_image example_external equator_db 1 = (Inr 0, equator_db)"
    using match_image_zero_center [OF eq_get, of example_external] dec0 by simp
  show ?thesis
    using a b or_get eq_get ra0 dec0
    by (simp add: origin_image_def equator_image_def example_image_def)
qed

text \<open>
  C5 (frame). Whatever \<open>match_image\<close> returns, the rows that are not AUTOMATIC rows of
  the given image are afterwards the same rows in the same order: rows of the image with
  another source (MANUAL, HEADER, NULL) and all rows of other images. The images and the
  catalog tables are not written either.
\<close>

theorem match_image_frame:
  assumes "match_image ext db iid = (r, db')"
  shows "filter (\<lambda>m. \<not> (image_id m = iid \<and> match_source m = Some ''AUTOMATIC''))
           (image_catalog_matches db') =
         filter (\<lambda>m. \<not> (image_id m = iid \<and> match_source m = Some ''AUTOMATIC''))
           (image_catalog_matches db)
         \<and> images db' = images db \<and> messier_catalog db' = messier_catalog db
         \<and> ngc_catalog db' = ngc_catalog db \<and> named_star_catalog db' = named_star_catalog db"
  using match_image_keeps_others [OF assms] match_image_tables [OF assms]
  by (simp add: delete_automatic_def is_automatic_of_def)

theorem match_image_frame_witness:
  "match_image example_external example_db 1 = (Inr 3, example_db_matched) \<and>
   image_catalog_matches example_db = [manual_row, stale_row, other_row] \<and>
   match_source manual_row = Some ''MANUAL'' \<and> image_id manual_row = 1 \<and>
   match_source other_row = Some ''AUTOMATIC'' \<and> image_id other_row = 2 \<and>
   match_source stale_row = Some ''AUTOMATIC'' \<and> image_id stale_row = 1 \<and>
   filter (\<lambda>m. \<not> (image_id m = 1 \<and> match_source m = Some ''AUTOMATIC''))
     (image_catalog_matches example_db_matched) = [manual_row, other_row] \<and>
   images example_db_matched = images example_db"
proof -
  have "filter (\<lambda>m. \<not> (image_id m = 1 \<and> match_source m = Some ''AUTOMATIC''))
          (image_catalog_matches example_db_matched) =
        filter (\<lambda>m. \<not> (image_id m = 1 \<and> match_source m = Some ''AUTOMATIC''))
          (image_catalog_matches example_db)
        \<and> images example_db_matched = images example_db"
    using match_image_frame [OF ex_match_image] by simp
  moreover have "filter (\<lambda>m. \<not> (image_id m = 1 \<and> match_source m = Some ''AUTOMATIC''))
          (image_catalog_matches example_db) = [manual_row, other_row]"
    by (simp add: example_db_def manual_row_def stale_row_def other_row_def)
  ultimately show ?thesis
    using ex_match_image
    by (simp add: example_db_def manual_row_def stale_row_def other_row_def)
qed

text \<open>
  C2 (idempotence, no duplicates). A second run of \<open>match_image\<close> right after the first
  returns what the first returned and leaves the database the first left, so the AUTOMATIC
  rows are the same. A run keeps the unique key (image, catalog type, designation) of the
  match table. A successful run on an image that passes the guards writes rows with
  pairwise different (catalog type, designation) keys, their number is the returned count,
  and each is built from the first candidate in loop order that carries its key. The run
  does succeed, whether or not candidates repeat a key, as soon as no validated candidate
  has a designation longer than the column or the key of a row the run keeps; it then
  writes one row for every key of a validated candidate. The two loops do this for any
  result lists they are given. With designations unique in each catalog table, as the
  schema declares, the candidates of an image carry no key twice.
\<close>

theorem match_image_idempotent_no_duplicates:
  "match_image ext (snd (match_image ext db iid)) iid = match_image ext db iid
   \<and> (distinct (map match_key (image_catalog_matches db)) \<longrightarrow>
        distinct (map match_key (image_catalog_matches (snd (match_image ext db iid)))))
   \<and> (\<forall>img n db'.
        session_get db iid = Some img \<and> matchable img \<and>
        match_image ext db iid = (Inr n, db') \<longrightarrow>
          distinct (map catalog_key (automatic_rows iid db')) \<and>
          n = length (automatic_rows iid db') \<and>
          (\<forall>m \<in> set (automatic_rows iid db').
             \<exists>c. find (\<lambda>d. candidate_key d = catalog_key m) (candidates ext db img) = Some c \<and>
                 m = new_match iid (fst c) (snd c)))
   \<and> (\<forall>img.
        session_get db iid = Some img \<and> matchable img \<and>
        (\<forall>c \<in> set (candidates ext db img).
           passes_validation ext db (construct_wcs ext img) img (fst c) (row_designation (snd c)) \<longrightarrow>
             length (row_designation (snd c)) \<le> 20 \<and>
             (iid, fst c, row_designation (snd c))
               \<notin> match_key ` set (delete_automatic iid (image_catalog_matches db))) \<longrightarrow>
        (\<exists>n db'.
           match_image ext db iid = (Inr n, db') \<and>
           n = length (automatic_rows iid db') \<and>
           distinct (map catalog_key (automatic_rows iid db')) \<and>
           catalog_key ` set (automatic_rows iid db') =
             {k \<in> candidate_key ` set (candidates ext db img).
                passes_validation ext db (construct_wcs ext img) img (fst k) (snd k)} \<and>
           (\<forall>m \<in> set (automatic_rows iid db').
              \<exists>c. find (\<lambda>d. candidate_key d = catalog_key m) (candidates ext db img) = Some c \<and>
                  m = new_match iid (fst c) (snd c))))
   \<and> (\<forall>wcs img all_matches seen_keys added count.
        match_all ext db wcs img iid all_matches ({}, [], 0) = (seen_keys, added, count) \<longrightarrow>
          distinct (map catalog_key added) \<and> count = length added \<and>
          seen_keys = catalog_key ` set added \<and>
          (\<forall>m \<in> set added.
             \<exists>c. find (\<lambda>d. candidate_key d = catalog_key m)
                    (concat (map (\<lambda>(cat_type, rows). map (Pair cat_type) rows) all_matches)) = Some c \<and>
                 m = new_match iid (fst c) (snd c)))
   \<and> (\<forall>img.
        distinct (map designation (messier_catalog db)) \<and>
        distinct (map designation (ngc_catalog db)) \<and>
        distinct (map designation (named_star_catalog db)) \<longrightarrow>
        distinct (map candidate_key (candidates ext db img)))"
proof (intro conjI)
  show "match_image ext (snd (match_image ext db iid)) iid = match_image ext db iid"
    by (rule match_image_idem)
next
  show "distinct (map match_key (image_catalog_matches db)) \<longrightarrow>
        distinct (map match_key (image_catalog_matches (snd (match_image ext db iid))))"
    using match_image_unique_preserved by blast
next
  show "\<forall>img n db'.
        session_get db iid = Some img \<and> matchable img \<and>
        match_image ext db iid = (Inr n, db') \<longrightarrow>
          distinct (map catalog_key (automatic_rows iid db')) \<and>
          n = length (automatic_rows iid db') \<and>
          (\<forall>m \<in> set (automatic_rows iid db').
             \<exists>c. find (\<lambda>d. candidate_key d = catalog_key m) (candidates ext db img) = Some c \<and>
                 m = new_match iid (fst c) (snd c))"
  proof (intro allI impI)
    fix img n db'
    assume h: "session_get db iid = Some img \<and> matchable img \<and> match_image ext db iid = (Inr n, db')"
    then have rows: "automatic_rows iid db' = written ext db img iid"
      and n: "n = length (written ext db img iid)"
      using match_image_success(2,3) [of db iid img ext n db'] by simp_all
    show "distinct (map catalog_key (automatic_rows iid db')) \<and>
          n = length (automatic_rows iid db') \<and>
          (\<forall>m \<in> set (automatic_rows iid db').
             \<exists>c. find (\<lambda>d. candidate_key d = catalog_key m) (candidates ext db img) = Some c \<and>
                 m = new_match iid (fst c) (snd c))"
      using written_first [of _ ext db img iid]
      by (simp add: rows n written_distinct)
  qed
next
  show "\<forall>img.
        session_get db iid = Some img \<and> matchable img \<and>
        (\<forall>c \<in> set (candidates ext db img).
           passes_validation ext db (construct_wcs ext img) img (fst c) (row_designation (snd c)) \<longrightarrow>
             length (row_designation (snd c)) \<le> 20 \<and>
             (iid, fst c, row_designation (snd c))
               \<notin> match_key ` set (delete_automatic iid (image_catalog_matches db))) \<longrightarrow>
        (\<exists>n db'.
           match_image ext db iid = (Inr n, db') \<and>
           n = length (automatic_rows iid db') \<and>
           distinct (map catalog_key (automatic_rows iid db')) \<and>
           catalog_key ` set (automatic_rows iid db') =
             {k \<in> candidate_key ` set (candidates ext db img).
                passes_validation ext db (construct_wcs ext img) img (fst k) (snd k)} \<and>
           (\<forall>m \<in> set (automatic_rows iid db').
              \<exists>c. find (\<lambda>d. candidate_key d = catalog_key m) (candidates ext db img) = Some c \<and>
                  m = new_match iid (fst c) (snd c)))"
  proof (intro allI impI)
    fix img
    assume h: "session_get db iid = Some img \<and> matchable img \<and>
        (\<forall>c \<in> set (candidates ext db img).
           passes_validation ext db (construct_wcs ext img) img (fst c) (row_designation (snd c)) \<longrightarrow>
             length (row_designation (snd c)) \<le> 20 \<and>
             (iid, fst c, row_designation (snd c))
               \<notin> match_key ` set (delete_automatic iid (image_catalog_matches db)))"
    let ?w = "written ext db img iid"
    let ?db' = "db\<lparr>image_catalog_matches := delete_automatic iid (image_catalog_matches db) @ ?w\<rparr>"
    from h have get: "session_get db iid = Some img" and ok: "matchable img" by simp_all
    from h have run: "match_image ext db iid = (Inr (length ?w), ?db')"
      using match_image_succeeds [of db iid img ext] by blast
    have rows: "automatic_rows iid ?db' = ?w"
      by (rule match_image_success(2) [OF get ok run])
    have "length ?w = length (automatic_rows iid ?db') \<and>
           distinct (map catalog_key (automatic_rows iid ?db')) \<and>
           catalog_key ` set (automatic_rows iid ?db') =
             {k \<in> candidate_key ` set (candidates ext db img).
                passes_validation ext db (construct_wcs ext img) img (fst k) (snd k)} \<and>
           (\<forall>m \<in> set (automatic_rows iid ?db').
              \<exists>c. find (\<lambda>d. candidate_key d = catalog_key m) (candidates ext db img) = Some c \<and>
                  m = new_match iid (fst c) (snd c))"
      unfolding rows
      using written_first [of _ ext db img iid]
      by (simp add: written_distinct written_keys_validated)
    with run show "\<exists>n db'.
           match_image ext db iid = (Inr n, db') \<and>
           n = length (automatic_rows iid db') \<and>
           distinct (map catalog_key (automatic_rows iid db')) \<and>
           catalog_key ` set (automatic_rows iid db') =
             {k \<in> candidate_key ` set (candidates ext db img).
                passes_validation ext db (construct_wcs ext img) img (fst k) (snd k)} \<and>
           (\<forall>m \<in> set (automatic_rows iid db').
              \<exists>c. find (\<lambda>d. candidate_key d = catalog_key m) (candidates ext db img) = Some c \<and>
                  m = new_match iid (fst c) (snd c))"
      by blast
  qed
next
  show "\<forall>wcs img all_matches seen_keys added count.
        match_all ext db wcs img iid all_matches ({}, [], 0) = (seen_keys, added, count) \<longrightarrow>
          distinct (map catalog_key added) \<and> count = length added \<and>
          seen_keys = catalog_key ` set added \<and>
          (\<forall>m \<in> set added.
             \<exists>c. find (\<lambda>d. candidate_key d = catalog_key m)
                    (concat (map (\<lambda>(cat_type, rows). map (Pair cat_type) rows) all_matches)) = Some c \<and>
                 m = new_match iid (fst c) (snd c))"
    using match_all_rows by blast
next
  show "\<forall>img.
        distinct (map designation (messier_catalog db)) \<and>
        distinct (map designation (ngc_catalog db)) \<and>
        distinct (map designation (named_star_catalog db)) \<longrightarrow>
        distinct (map candidate_key (candidates ext db img))"
    using candidates_distinct by blast
qed

theorem match_image_idempotent_no_duplicates_witness:
  "match_image example_external example_db 1 = (Inr 3, example_db_matched) \<and>
   match_image example_external example_db_matched 1 = (Inr 3, example_db_matched) \<and>
   distinct (map match_key (image_catalog_matches example_db)) \<and>
   distinct (map match_key (image_catalog_matches example_db_matched)) \<and>
   session_get example_db 1 = Some example_image \<and> matchable example_image \<and>
   automatic_rows 1 example_db_matched =
     [auto_row MESSIER ''M31'' 0 1, auto_row NGC ''NGC224'' 0 1,
      auto_row NAMED_STAR ''HD 3969'' 0.25 0.95] \<and>
   distinct (map catalog_key (automatic_rows 1 example_db_matched)) \<and>
   3 = length (automatic_rows 1 example_db_matched) \<and>
   catalog_key ` set (automatic_rows 1 example_db_matched) =
     {k \<in> candidate_key ` set (candidates example_external example_db example_image).
        passes_validation example_external example_db
          (construct_wcs example_external example_image) example_image (fst k) (snd k)} \<and>
   distinct (map designation (messier_catalog example_db)) \<and>
   distinct (map designation (ngc_catalog example_db)) \<and>
   distinct (map designation (named_star_catalog example_db)) \<and>
   distinct (map candidate_key (candidates example_external example_db example_image)) \<and>
   match_all example_external example_db None example_image 1 repeated_matches ({}, [], 0) =
     ({(MESSIER, ''M31''), (NGC, ''NGC224'')},
      [auto_row MESSIER ''M31'' 0 1, auto_row NGC ''NGC224'' 0 1], 2) \<and>
   distinct (map catalog_key [auto_row MESSIER ''M31'' 0 1, auto_row NGC ''NGC224'' 0 1]) \<and>
   (\<exists>c. find (\<lambda>d. candidate_key d = catalog_key (auto_row MESSIER ''M31'' 0 1))
           (concat (map (\<lambda>(cat_type, rows). map (Pair cat_type) rows) repeated_matches)) = Some c \<and>
        auto_row MESSIER ''M31'' 0 1 = new_match 1 (fst c) (snd c))"
proof -
  note inst = match_image_idempotent_no_duplicates [of example_external example_db 1]
  have again: "match_image example_external example_db_matched 1 = (Inr 3, example_db_matched)"
    using inst by (simp add: ex_match_image)
  have d0: "distinct (map match_key (image_catalog_matches example_db))"
    by (simp add: example_db_def match_key_def manual_row_def stale_row_def other_row_def)
  have d1: "distinct (map match_key (image_catalog_matches example_db_matched))"
    using inst d0 by (simp add: ex_match_image)
  have "\<exists>n db'.
           match_image example_external example_db 1 = (Inr n, db') \<and>
           n = length (automatic_rows 1 db') \<and>
           distinct (map catalog_key (automatic_rows 1 db')) \<and>
           catalog_key ` set (automatic_rows 1 db') =
             {k \<in> candidate_key ` set (candidates example_external example_db example_image).
                passes_validation example_external example_db
                  (construct_wcs example_external example_image) example_image (fst k) (snd k)} \<and>
           (\<forall>m \<in> set (automatic_rows 1 db').
              \<exists>c. find (\<lambda>d. candidate_key d = catalog_key m)
                     (candidates example_external example_db example_image) = Some c \<and>
                  m = new_match 1 (fst c) (snd c))"
    using inst ex_get ex_matchable ex_fits by blast
  then have run: "3 = length (automatic_rows 1 example_db_matched) \<and>
           distinct (map catalog_key (automatic_rows 1 example_db_matched)) \<and>
           catalog_key ` set (automatic_rows 1 example_db_matched) =
             {k \<in> candidate_key ` set (candidates example_external example_db example_image).
                passes_validation example_external example_db
                  (construct_wcs example_external example_image) example_image (fst k) (snd k)}"
    by (auto simp: ex_match_image)
  have cand: "distinct (map candidate_key (candidates example_external example_db example_image))"
    using inst ex_tables_distinct by blast
  have loop: "distinct (map catalog_key [auto_row MESSIER ''M31'' 0 1, auto_row NGC ''NGC224'' 0 1]) \<and>
      (\<forall>m \<in> set [auto_row MESSIER ''M31'' 0 1, auto_row NGC ''NGC224'' 0 1].
         \<exists>c. find (\<lambda>d. candidate_key d = catalog_key m)
                (concat (map (\<lambda>(cat_type, rows). map (Pair cat_type) rows) repeated_matches)) = Some c \<and>
             m = new_match 1 (fst c) (snd c))"
    using inst rep_loop by blast
  then have first: "\<exists>c. find (\<lambda>d. candidate_key d = catalog_key (auto_row MESSIER ''M31'' 0 1))
           (concat (map (\<lambda>(cat_type, rows). map (Pair cat_type) rows) repeated_matches)) = Some c \<and>
        auto_row MESSIER ''M31'' 0 1 = new_match 1 (fst c) (snd c)"
    by simp
  show ?thesis
    using ex_match_image again d0 d1 ex_get ex_matchable ex_automatic run ex_tables_distinct cand
      rep_loop loop first
    by simp
qed

text \<open>
  C3 (confidence score). The row written for a candidate at distance \<open>d\<close> carries
  \<open>1 - d / 5\<close>, not \<open>max 0 (1 - d / 5)\<close>: for an image with a field radius of 10 degrees
  and a Messier object 10 degrees from the centre, the stored score is \<open>-1\<close>.
\<close>

theorem match_image_confidence_negative:
  "field_radius_degrees wide_image = Some 10 \<and>
   candidates example_external wide_db wide_image =
     [(MESSIER, \<lparr>row_designation = ''M15'', dist = 10\<rparr>)] \<and>
   match_image example_external wide_db 1 = (Inr 1, wide_db_matched) \<and>
   map angular_separation_degrees (automatic_rows 1 wide_db_matched) = [Some 10] \<and>
   map confidence_score (automatic_rows 1 wide_db_matched) = [Some (- 1)] \<and>
   max 0 (1 - 10 / 5.0) = (0::real)"
  using wd_candidates wd_match_image
  by (simp add: wide_image_def wd_automatic auto_row_def)




section \<open>Claims about submission and the reaper\<close>

text \<open>
  C6 (blind resubmission). When a submission, by the task \<^verbatim>\<open>_rescan_logic\<close> or by the
  endpoint \<^verbatim>\<open>rescan_image\<close>, reaches the upload for an image whose status before the
  submission was FAILED, the \<^verbatim>\<open>hints\<close> argument it passes is the empty dictionary,
  whatever centre, radius and pixel scale the image stores; the request that
  \<^verbatim>\<open>upload_file\<close> builds from it holds the four fixed fields and, for a server other than
  the remote one, the fixed default scale range, and nothing taken from the image.
\<close>

theorem rescan_failed_blind:
  assumes "session_get db iid = Some img" and "astrometry_status img = ''FAILED''"
    and "rescan_logic env db iid = (Upload_file path key url hs, db') \<or>
         rescan_image env db iid = (Upload_file path key url hs, db')"
  shows "hs = [] \<and>
         req_data session_key url hs =
           [(''publicly_visible'', Text ''n''), (''allow_commercial_use'', Text ''d''),
            (''allow_modifications'', Text ''d''), (''session'', Text session_key)]
           @ (if contains ''nova.astrometry.net'' url then []
              else [(''scale_units'', Text ''degwidth''), (''scale_lower'', Number 0.1),
                    (''scale_upper'', Number 180.0)])"
proof -
  from assms(3) have "\<exists>i. session_get db iid = Some i \<and> hs = prepare_hints (astrometry_status i) i"
    using rescan_logic_upload rescan_image_upload by blast
  with assms(1) have "hs = prepare_hints (astrometry_status img) img" by simp
  then have "hs = []" by (simp add: assms(2) prepare_hints_def)
  then show ?thesis by (simp add: req_data_no_hints)
qed

theorem rescan_failed_blind_witness:
  "session_get failed_db 1 = Some failed_image \<and> astrometry_status failed_image = ''FAILED'' \<and>
   ra_center_degrees failed_image = Some 10 \<and> dec_center_degrees failed_image = Some 41 \<and>
   field_radius_degrees failed_image = Some 1 \<and> pixel_scale_arcsec failed_image = Some 2 \<and>
   fst (rescan_logic local_env failed_db 1) =
     Upload_file ''/data/m31.fits'' ''localkey'' ''http://solver.local/api'' [] \<and>
   fst (rescan_image local_env failed_db 1) =
     Upload_file ''/data/m31.fits'' ''localkey'' ''http://solver.local/api'' [] \<and>
   req_data ''sess'' ''http://solver.local/api'' [] =
     [(''publicly_visible'', Text ''n''), (''allow_commercial_use'', Text ''d''),
      (''allow_modifications'', Text ''d''), (''session'', Text ''sess''),
      (''scale_units'', Text ''degwidth''), (''scale_lower'', Number 0.1),
      (''scale_upper'', Number 180.0)] \<and>
   fst (rescan_logic local_env fresh_db 1) =
     Upload_file ''/data/m31.fits'' ''localkey'' ''http://solver.local/api''
        [(''center_ra'', Number 10), (''center_dec'', Number 41), (''radius'', Number 1),
         (''scale_units'', Text ''arcsecperpix''), (''scale_lower'', Number 1.8),
         (''scale_upper'', Number 2.2)]"
proof -
  have st: "astrometry_status failed_image = ''FAILED''"
    by (simp add: failed_image_def)
  have "req_data ''sess'' ''http://solver.local/api'' [] =
     [(''publicly_visible'', Text ''n''), (''allow_commercial_use'', Text ''d''),
      (''allow_modifications'', Text ''d''), (''session'', Text ''sess'')]
     @ (if contains ''nova.astrometry.net'' ''http://solver.local/api'' then []
        else [(''scale_units'', Text ''degwidth''), (''scale_lower'', Number 0.1),
              (''scale_upper'', Number 180.0)])"
    using rescan_failed_blind [OF fd_get st disjI1 [OF fd_rescan], of "''sess''"] by simp
  then have req: "req_data ''sess'' ''http://solver.local/api'' [] =
     [(''publicly_visible'', Text ''n''), (''allow_commercial_use'', Text ''d''),
      (''allow_modifications'', Text ''d''), (''session'', Text ''sess''),
      (''scale_units'', Text ''degwidth''), (''scale_lower'', Number 0.1),
      (''scale_upper'', Number 180.0)]"
    by (simp only: local_not_nova if_False append.simps)
  show ?thesis
    using fd_get st req
    by (simp add: fd_rescan fd_rescan_image fr_rescan) (simp add: failed_image_def example_image_def)
qed

text \<open>
  C8 (admission denial). When \<^verbatim>\<open>_rescan_logic\<close> has an API key and holds the lock, and the
  number of images with status SUBMITTED or PROCESSING is at or above the ceiling, it ends
  in \<^verbatim>\<open>task.retry(countdown=20)\<close> and the database, the status of the image included, is
  the one it started from. The ceiling is 8 when the system settings give none.
\<close>

theorem rescan_denied_over_ceiling:
  assumes "effective_api_key env \<noteq> []" and "lock_acquired env"
    and "max_submissions env \<le> int (active_count db)"
  shows "rescan_logic env db iid = (Retry 20, db) \<and>
         (system_settings env = None \<longrightarrow> max_submissions env = 8)"
  using rescan_logic_throttle [OF assms] by (simp add: max_submissions_def)

theorem rescan_denied_over_ceiling_witness:
  "effective_api_key default_env = ''novakey'' \<and> lock_acquired default_env \<and>
   system_settings default_env = None \<and> max_submissions default_env = 8 \<and>
   active_count busy_db = 8 \<and>
   session_get busy_db 1 = Some fresh_image \<and> astrometry_status fresh_image = ''NONE'' \<and>
   rescan_logic default_env busy_db 1 = (Retry 20, busy_db)"
proof -
  have key: "effective_api_key default_env \<noteq> []" by (simp add: default_key)
  have full: "max_submissions default_env \<le> int (active_count busy_db)"
    by (simp add: default_limits busy_active)
  have none: "system_settings default_env = None" by (simp add: default_env_def)
  from rescan_denied_over_ceiling [OF key default_limits(2) full, of 1] none
  have "rescan_logic default_env busy_db 1 = (Retry 20, busy_db) \<and> max_submissions default_env = 8"
    by simp
  then show ?thesis
    using none busy_active busy_get default_limits default_key by (simp add: fresh_image_def)
qed

text \<open>
  C7 (reaper). After a sweep the image table has the same rows in the same places, and a
  row is changed exactly when its status is SUBMITTED or PROCESSING and its
  \<^verbatim>\<open>updated_at\<close> is more than five minutes before the clock of the sweep: such a row gets
  status FAILED (and the timestamp of the flush), every other row is the row it was. The
  returned count is the number of rows changed, and no other table is written.
\<close>

theorem cleanup_sweeps_exactly_stuck:
  assumes "cleanup_stuck_astrometry now flushed db = (n, db')"
  shows "length (images db') = length (images db) \<and>
         (\<forall>k < length (images db).
            ((astrometry_status (images db ! k) = ''SUBMITTED'' \<or>
              astrometry_status (images db ! k) = ''PROCESSING'') \<and>
             (\<exists>t. updated_at (images db ! k) = Some t \<and> t + 5 * 60 * 1000000 < now)
             \<longrightarrow> images db' ! k =
                   (images db ! k)\<lparr>astrometry_status := ''FAILED'', updated_at := Some flushed\<rparr>)
            \<and>
            (\<not> ((astrometry_status (images db ! k) = ''SUBMITTED'' \<or>
                 astrometry_status (images db ! k) = ''PROCESSING'') \<and>
                (\<exists>t. updated_at (images db ! k) = Some t \<and> t + 5 * 60 * 1000000 < now))
             \<longrightarrow> images db' ! k = images db ! k))
         \<and> n = length (filter (\<lambda>img.
                  (astrometry_status img = ''SUBMITTED'' \<or> astrometry_status img = ''PROCESSING'') \<and>
                  (\<exists>t. updated_at img = Some t \<and> t + 5 * 60 * 1000000 < now)) (images db))
         \<and> image_catalog_matches db' = image_catalog_matches db
         \<and> messier_catalog db' = messier_catalog db \<and> ngc_catalog db' = ngc_catalog db
         \<and> named_star_catalog db' = named_star_catalog db"
proof -
  from assms have n: "n = fst (cleanup_stuck_astrometry now flushed db)"
    and db': "db' = snd (cleanup_stuck_astrometry now flushed db)" by simp_all
  have imgs: "images db' =
     map (\<lambda>img. if is_stuck (now - 300000000) img
                then img\<lparr>astrometry_status := ''FAILED'', updated_at := Some flushed\<rparr>
                else img) (images db)"
    by (simp add: db' cleanup_images)
  have len: "length (images db') = length (images db)" by (simp add: imgs)
  have rows: "\<forall>k < length (images db).
            ((astrometry_status (images db ! k) = ''SUBMITTED'' \<or>
              astrometry_status (images db ! k) = ''PROCESSING'') \<and>
             (\<exists>t. updated_at (images db ! k) = Some t \<and> t + 5 * 60 * 1000000 < now)
             \<longrightarrow> images db' ! k =
                   (images db ! k)\<lparr>astrometry_status := ''FAILED'', updated_at := Some flushed\<rparr>)
            \<and>
            (\<not> ((astrometry_status (images db ! k) = ''SUBMITTED'' \<or>
                 astrometry_status (images db ! k) = ''PROCESSING'') \<and>
                (\<exists>t. updated_at (images db ! k) = Some t \<and> t + 5 * 60 * 1000000 < now))
             \<longrightarrow> images db' ! k = images db ! k)"
  proof (intro allI impI)
    fix k
    assume k: "k < length (images db)"
    have at_k: "images db' ! k =
        (if is_stuck (now - 300000000) (images db ! k)
         then (images db ! k)\<lparr>astrometry_status := ''FAILED'', updated_at := Some flushed\<rparr>
         else images db ! k)"
      using k by (simp add: imgs)
    have five: "(5::int) * 60 * 1000000 = 300000000" by simp
    show "((astrometry_status (images db ! k) = ''SUBMITTED'' \<or>
              astrometry_status (images db ! k) = ''PROCESSING'') \<and>
             (\<exists>t. updated_at (images db ! k) = Some t \<and> t + 5 * 60 * 1000000 < now)
             \<longrightarrow> images db' ! k =
                   (images db ! k)\<lparr>astrometry_status := ''FAILED'', updated_at := Some flushed\<rparr>)
            \<and>
            (\<not> ((astrometry_status (images db ! k) = ''SUBMITTED'' \<or>
                 astrometry_status (images db ! k) = ''PROCESSING'') \<and>
                (\<exists>t. updated_at (images db ! k) = Some t \<and> t + 5 * 60 * 1000000 < now))
             \<longrightarrow> images db' ! k = images db ! k)"
      unfolding five is_stuck_iff [of now "images db ! k", symmetric] at_k
      by simp
  qed
  have cnt: "n = length (filter (\<lambda>img.
                  (astrometry_status img = ''SUBMITTED'' \<or> astrometry_status img = ''PROCESSING'') \<and>
                  (\<exists>t. updated_at img = Some t \<and> t + 5 * 60 * 1000000 < now)) (images db))"
  proof -
    have "is_stuck (now - 300000000) =
        (\<lambda>img. (astrometry_status img = ''SUBMITTED'' \<or> astrometry_status img = ''PROCESSING'') \<and>
               (\<exists>t. updated_at img = Some t \<and> t + 300000000 < now))"
      by (rule ext) (rule is_stuck_iff)
    then show ?thesis by (simp add: n cleanup_count)
  qed
  show ?thesis
    using len rows cnt by (simp add: db' cleanup_tables)
qed

theorem cleanup_sweeps_exactly_stuck_witness:
  "cleanup_stuck_astrometry 1000000000 1000000007 reaper_db =
     (1, reaper_db\<lparr>images :=
           [aged 1 ''FAILED'' 1000000007, aged 2 ''PROCESSING'' 940000000,
            aged 3 ''SOLVED'' 400000000,
            (aged 4 ''SUBMITTED'' 0)\<lparr>updated_at := None\<rparr>]\<rparr>) \<and>
   images reaper_db ! 0 = aged 1 ''PROCESSING'' 400000000 \<and>
   images reaper_db ! 1 = aged 2 ''PROCESSING'' 940000000 \<and>
   images (snd (cleanup_stuck_astrometry 1000000000 1000000007 reaper_db)) ! 0 =
     (aged 1 ''PROCESSING'' 400000000)\<lparr>astrometry_status := ''FAILED'',
                                        updated_at := Some 1000000007\<rparr> \<and>
   images (snd (cleanup_stuck_astrometry 1000000000 1000000007 reaper_db)) ! 1 =
     aged 2 ''PROCESSING'' 940000000 \<and>
   length (images (snd (cleanup_stuck_astrometry 1000000000 1000000007 reaper_db))) = 4"
proof -
  let ?db' = "reaper_db\<lparr>images :=
           [aged 1 ''FAILED'' 1000000007, aged 2 ''PROCESSING'' 940000000,
            aged 3 ''SOLVED'' 400000000,
            (aged 4 ''SUBMITTED'' 0)\<lparr>updated_at := None\<rparr>]\<rparr>"
  note sweep = cleanup_sweeps_exactly_stuck [OF reaper_run]
  have imgs: "images reaper_db =
       [aged 1 ''PROCESSING'' 400000000, aged 2 ''PROCESSING'' 940000000,
        aged 3 ''SOLVED'' 400000000, (aged 4 ''SUBMITTED'' 0)\<lparr>updated_at := None\<rparr>]"
    by (simp add: reaper_db_def)
  have len: "length (images ?db') = 4"
    using sweep by (simp add: imgs)
  have k0: "images ?db' ! 0 =
     (aged 1 ''PROCESSING'' 400000000)\<lparr>astrometry_status := ''FAILED'',
                                        updated_at := Some 1000000007\<rparr>"
  proof -
    have "(astrometry_status (images reaper_db ! 0) = ''SUBMITTED'' \<or>
           astrometry_status (images reaper_db ! 0) = ''PROCESSING'') \<and>
          (\<exists>t. updated_at (images reaper_db ! 0) = Some t \<and> t + 5 * 60 * 1000000 < 1000000000)"
      by (simp add: imgs aged_def)
    moreover have "0 < length (images reaper_db)" by (simp add: imgs)
    ultimately have "images ?db' ! 0 =
        (images reaper_db ! 0)\<lparr>astrometry_status := ''FAILED'', updated_at := Some 1000000007\<rparr>"
      using sweep by blast
    then show ?thesis by (simp add: imgs)
  qed
  have k1: "images ?db' ! 1 = aged 2 ''PROCESSING'' 940000000"
  proof -
    have "\<not> ((astrometry_status (images reaper_db ! 1) = ''SUBMITTED'' \<or>
           astrometry_status (images reaper_db ! 1) = ''PROCESSING'') \<and>
          (\<exists>t. updated_at (images reaper_db ! 1) = Some t \<and> t + 5 * 60 * 1000000 < 1000000000))"
      by (simp add: imgs aged_def)
    moreover have "1 < length (images reaper_db)" by (simp add: imgs)
    ultimately have "images ?db' ! 1 = images reaper_db ! 1"
      using sweep by blast
    then show ?thesis by (simp add: imgs)
  qed
  show ?thesis
    using len k0 k1 by (simp add: reaper_run imgs)
qed

end
